theory Spec2Isabelle
  imports Main "HOL-Library.Sublist" "HOL-Library.AList"
begin

section \<open>Destination numbers\<close>

text \<open>
  \<^verbatim>\<open>formatPhoneNumber\<close> is defined three times in the repository (Mongo variant, Express
  variant, /tmp variant) with the same body:
  \<^verbatim>\<open>
  function formatPhoneNumber(phone) {
      let formatted = phone.replace(/\D/g, '');
      if (formatted.startsWith('0')) {
          formatted = '62' + formatted.substring(1);
      } else if (!formatted.startsWith('62')) {
          formatted = '62' + formatted;
      }
      return formatted;
  }
  \<close>
  A JavaScript string is modelled as a \<^typ>\<open>string\<close>. The class \<^verbatim>\<open>\D\<close> is every code unit
  outside \<^verbatim>\<open>0-9\<close>; a character beyond ASCII is a non-digit in either encoding, so the
  filter below keeps exactly what \<^verbatim>\<open>replace\<close> keeps.
\<close>

definition is_digit :: "char \<Rightarrow> bool" where
  "is_digit c = (c \<in> set ''0123456789'')"

definition strip_non_digits :: "string \<Rightarrow> string" where
  "strip_non_digits phone = filter is_digit phone"

definition startsWith :: "string \<Rightarrow> string \<Rightarrow> bool" where
  "startsWith s p = (take (length p) s = p)"

definition substring :: "nat \<Rightarrow> string \<Rightarrow> string" where
  "substring n s = drop n s"

definition formatPhoneNumber :: "string \<Rightarrow> string" where
  "formatPhoneNumber phone =
     (let formatted = strip_non_digits phone in
      if startsWith formatted ''0'' then ''62'' @ substring 1 formatted
      else if \<not> startsWith formatted ''62'' then ''62'' @ formatted
      else formatted)"

text \<open>
  The normalisation as the specification words it, three steps one after the other:
  strip non-digits, map a leading local-trunk digit to the country code, prepend the
  country code if absent.
\<close>

definition spec_strip :: "string \<Rightarrow> string" where
  "spec_strip d = [c \<leftarrow> d. \<not> c \<notin> set ''0123456789'']"

definition spec_map_trunk :: "string \<Rightarrow> string" where
  "spec_map_trunk d = (case d of [] \<Rightarrow> [] | c # r \<Rightarrow> if c = CHR ''0'' then ''62'' @ r else d)"

definition spec_prepend_country :: "string \<Rightarrow> string" where
  "spec_prepend_country d = (if prefix ''62'' d then d else ''62'' @ d)"

definition spec_normalize :: "string \<Rightarrow> string" where
  "spec_normalize phone = spec_prepend_country (spec_map_trunk (spec_strip phone))"


section \<open>Shared vocabulary: HTTP, protocol client, credential folder\<close>

text \<open>
  The three services are separate programs built on the same external protocol client.
  What follows is the vocabulary they share. A JSON response body is an association list
  in the order the source writes the fields; \<open>JDate t\<close> stands for
  \<^verbatim>\<open>new Date(t).toISOString()\<close>, \<open>JImage (DataURL q)\<close> for the data URL that
  \<^verbatim>\<open>qrcode.toDataURL(q)\<close> renders, and \<open>JSocket\<close> for the own properties of a socket object.
  HTML pages are presentation and carry no content here.
\<close>

datatype qr_image = DataURL string

datatype json =
  JNull | JBool bool | JNum int | JStr string | JArr "json list" | JDate int | JImage qr_image | JSocket

type_synonym json_object = "(string \<times> json) list"

datatype body = Json json_object | Html | NoBody

datatype response = Response (status: nat) (body: body)

definition json_field :: "string \<Rightarrow> response \<Rightarrow> json option" where
  "json_field k r = (case body r of Json obj \<Rightarrow> map_of obj k | Html \<Rightarrow> None | NoBody \<Rightarrow> None)"

text \<open>
  A request: method, path, origin (protocol and host), and the two body fields the send
  routes read. A field is a string or absent; \<^verbatim>\<open>!phone\<close> holds for an absent field and for the empty string.
\<close>

record request =
  req_method :: string
  req_pathname :: string
  req_origin :: string
  req_phone :: "string option"
  req_message :: "string option"

definition truthy :: "string option \<Rightarrow> bool" where
  "truthy v = (case v of None \<Rightarrow> False | Some x \<Rightarrow> x \<noteq> [])"

definition str_of :: "string option \<Rightarrow> string" where
  "str_of v = (case v of None \<Rightarrow> [] | Some x \<Rightarrow> x)"

text \<open>
  The socket object of the protocol client, as far as the services read it:
  \<^verbatim>\<open>sock.user.id\<close>, \<^verbatim>\<open>sock.user.name\<close> and \<^verbatim>\<open>sock.authState.creds\<close>, each possibly undefined.
\<close>

record socket =
  user_id :: "string option"
  user_name :: "string option"
  auth_creds :: "string option"

text \<open>\<^verbatim>\<open>sock?.user?.id ? sock.user.id.split(':')[0] : null\<close>\<close>

definition botNumber :: "socket option \<Rightarrow> json" where
  "botNumber sk =
     (case sk of
        None \<Rightarrow> JNull
      | Some k \<Rightarrow> if truthy (user_id k)
                  then JStr (takeWhile (\<lambda>c. c \<noteq> CHR '':'') (str_of (user_id k)))
                  else JNull)"

text \<open>
  A \<^verbatim>\<open>connection.update\<close> event: \<^verbatim>\<open>connection\<close>, \<^verbatim>\<open>lastDisconnect?.error?.output?.statusCode\<close>
  and \<^verbatim>\<open>qr\<close>. \<open>loggedOut\<close> is the client library's \<^verbatim>\<open>DisconnectReason.loggedOut\<close>.
\<close>

datatype connection_value = Close | Open | Connecting

record conn_update =
  connection :: "connection_value option"
  statusCode :: "nat option"
  qr :: "string option"

definition loggedOut :: nat where
  "loggedOut = 401"

text \<open>
  Calls made on the collaborators, logged in the order they are made: creating a socket
  (which opens a connection), ending one, a recipient lookup, a message send, and
  \<^verbatim>\<open>fs.readdirSync(authFolder)\<close>, the first step of every pass that wipes the credential
  folder.
\<close>

datatype effect = MakeSocket | SockEnd | OnWhatsApp string | SendMessage string string | ReadDir

text \<open>What an awaited call of a collaborator does: it throws, or it returns a value.\<close>

datatype 'a outcome = Throws string | Returns 'a

text \<open>
  The credential folder of the two file-backed services. \<^verbatim>\<open>fs.readdirSync\<close> throws when the
  folder is missing; \<^verbatim>\<open>fs.unlinkSync\<close> removes a regular file and throws on a directory.
  The loop over the listing stops at the first throw and keeps what it has deleted.
\<close>

datatype entry_kind = RegularFile | Directory

type_synonym folder = "(string \<times> entry_kind) list"

fun unlink_each :: "string list \<Rightarrow> folder \<Rightarrow> folder \<times> string option" where
  "unlink_each [] d = (d, None)"
| "unlink_each (f # fs) d =
     (case map_of d f of
        None \<Rightarrow> (d, Some ''ENOENT'')
      | Some Directory \<Rightarrow> (d, Some ''EISDIR'')
      | Some RegularFile \<Rightarrow> unlink_each fs (filter (\<lambda>e. fst e \<noteq> f) d))"

definition clear_auth_files :: "folder option \<Rightarrow> folder option \<times> string option" where
  "clear_auth_files fo =
     (case fo of
        None \<Rightarrow> (None, Some ''ENOENT'')
      | Some d \<Rightarrow> (case unlink_each (map fst d) d of (d', e) \<Rightarrow> (Some d', e)))"

text \<open>
  What the environment does when a connection is set up: a call before the socket
  exists throws (\<^verbatim>\<open>fetchLatestBaileysVersion\<close>, the credential loader, \<^verbatim>\<open>makeWASocket\<close>), or
  \<^verbatim>\<open>makeWASocket\<close> returns a socket.
\<close>

datatype setup_outcome = SetupThrows string | SetupOk socket


section \<open>The /tmp service (idle policy, credentials under the temporary directory)\<close>

text \<open>
  Module state: \<^verbatim>\<open>sock\<close>, \<^verbatim>\<open>qrCode\<close>, \<^verbatim>\<open>isConnected\<close>, \<^verbatim>\<open>lastActivity\<close>, the credential folder,
  and the log of calls made on the collaborators. Times are milliseconds.
  \<^verbatim>\<open>sock.end()\<close> is taken to return normally. Events of a socket are handled one at a
  time, to completion; inside \<^verbatim>\<open>connectToWhatsApp\<close> the events handled are those that arrive
  until its promise settles.
\<close>

record tmp_state =
  tmp_sock :: "socket option"
  tmp_qrCode :: "string option"
  tmp_isConnected :: bool
  tmp_lastActivity :: int
  tmp_authFolder :: "folder option"
  tmp_calls :: "effect list"

definition CONNECTION_TIMEOUT :: int where
  "CONNECTION_TIMEOUT = 5 * 60 * 1000"

definition tmp_initial :: "int \<Rightarrow> folder \<Rightarrow> tmp_state" where
  "tmp_initial loaded_at d =
     \<lparr>tmp_sock = None, tmp_qrCode = None, tmp_isConnected = False,
      tmp_lastActivity = loaded_at, tmp_authFolder = Some d, tmp_calls = []\<rparr>"

text \<open>The \<^verbatim>\<open>connection.update\<close> listener, run at time \<open>t\<close>.\<close>

definition tmp_on_update :: "int \<Rightarrow> conn_update \<Rightarrow> tmp_state \<Rightarrow> tmp_state" where
  "tmp_on_update t u s =
     (let s1 = (if truthy (qr u) then s\<lparr>tmp_qrCode := qr u\<rparr> else s);
          s2 = (if connection u = Some Close
                then (let s' = s1\<lparr>tmp_isConnected := False\<rparr> in
                      if statusCode u = Some loggedOut
                      then s'\<lparr>tmp_qrCode := None,
                              tmp_calls := tmp_calls s' @ [ReadDir],
                              tmp_authFolder := fst (clear_auth_files (tmp_authFolder s'))\<rparr>
                      else s')
                else s1)
      in if connection u = Some Open
         then s2\<lparr>tmp_isConnected := True, tmp_qrCode := None, tmp_lastActivity := t\<rparr>
         else s2)"

text \<open>
  How the listener settles the promise of \<^verbatim>\<open>connectToWhatsApp\<close>: the first \<^verbatim>\<open>resolve\<close> or
  \<^verbatim>\<open>reject\<close> it reaches wins.
\<close>

datatype connect_result = ExistingSock | NeedsScan string | Connected

definition tmp_settles :: "conn_update \<Rightarrow> (string + connect_result) option" where
  "tmp_settles u =
     (if truthy (qr u) then Some (Inr (NeedsScan (str_of (qr u))))
      else if connection u = Some Close then Some (Inl ''Connection closed'')
      else if connection u = Some Open then Some (Inr Connected)
      else None)"

fun tmp_await :: "(int \<times> conn_update) list \<Rightarrow> tmp_state \<Rightarrow> (string + connect_result) \<times> tmp_state" where
  "tmp_await [] s = (Inl ''Connection timeout'', s)"
| "tmp_await ((t, u) # rest) s =
     (let s' = tmp_on_update t u s in
      case tmp_settles u of
        Some r \<Rightarrow> (r, s')
      | None \<Rightarrow> tmp_await rest s')"

text \<open>
  What a request meets in its environment: the clock at arrival, the process uptime in
  seconds, the outcome of a
  connection set-up and the timed events that follow it within the 45 s bound, the
  outcome of the recipient lookup (does the first element of the answer exist) and of
  the send (the message id), and the clock after the send. For the Mongo service, whose
  listener nulls the handle, it also holds the connection updates of sockets made earlier
  that are handled while a route awaits \<^verbatim>\<open>initWhatsApp()\<close>, and the updates handled while it
  awaits the recipient lookup.
\<close>

record env =
  now :: int
  uptime :: int
  conn_setup :: setup_outcome
  conn_events :: "(int \<times> conn_update) list"
  await_events :: "conn_update list"
  lookup :: "bool outcome"
  lookup_events :: "conn_update list"
  delivery :: "string outcome"
  sent_at :: int

definition tmp_connectToWhatsApp :: "env \<Rightarrow> tmp_state \<Rightarrow> (string + connect_result) \<times> tmp_state" where
  "tmp_connectToWhatsApp env s =
     (if tmp_sock s \<noteq> None \<and> tmp_isConnected s
      then (Inr ExistingSock, s\<lparr>tmp_lastActivity := now env\<rparr>)
      else case conn_setup env of
             SetupThrows m \<Rightarrow> (Inl m, s)
           | SetupOk k \<Rightarrow>
               tmp_await (conn_events env)
                 (s\<lparr>tmp_sock := Some k, tmp_calls := tmp_calls s @ [MakeSocket]\<rparr>))"

definition keepAlive :: "int \<Rightarrow> tmp_state \<Rightarrow> tmp_state" where
  "keepAlive t s =
     (if tmp_sock s \<noteq> None \<and> tmp_isConnected s
      then (let inactive = t - tmp_lastActivity s in
            if inactive > CONNECTION_TIMEOUT
            then s\<lparr>tmp_calls := tmp_calls s @ [SockEnd], tmp_sock := None, tmp_isConnected := False\<rparr>
            else s)
      else s)"

definition tmp_status :: "env \<Rightarrow> tmp_state \<Rightarrow> response \<times> tmp_state" where
  "tmp_status env s =
     (Response 200 (Json
        [(''connected'', JBool (tmp_isConnected s)),
         (''qrAvailable'', JBool (truthy (tmp_qrCode s))),
         (''botNumber'', botNumber (tmp_sock s)),
         (''lastActivity'', JNum (tmp_lastActivity s)),
         (''timestamp'', JDate (now env))]), s)"

definition connect_result_fields :: "connect_result \<Rightarrow> json_object" where
  "connect_result_fields r =
     (case r of
        ExistingSock \<Rightarrow> [(''...sock'', JSocket)]
      | NeedsScan q \<Rightarrow> [(''qr'', JStr q), (''needsScan'', JBool True)]
      | Connected \<Rightarrow> [(''connected'', JBool True)])"

definition tmp_connect :: "env \<Rightarrow> tmp_state \<Rightarrow> response \<times> tmp_state" where
  "tmp_connect env s =
     (case tmp_connectToWhatsApp env s of
        (Inr r, s') \<Rightarrow> (Response 200 (Json ((''success'', JBool True) # connect_result_fields r)), s')
      | (Inl m, s') \<Rightarrow> (Response 500 (Json [(''success'', JBool False), (''error'', JStr m)]), s'))"

definition tmp_qr :: "env \<Rightarrow> tmp_state \<Rightarrow> response \<times> tmp_state" where
  "tmp_qr env s =
     (if tmp_isConnected s
      then (Response 200 (Json [(''success'', JBool False), (''message'', JStr ''Already connected'')]), s)
      else (let s1 = (if \<not> truthy (tmp_qrCode s) then snd (tmp_connectToWhatsApp env s) else s) in
            if truthy (tmp_qrCode s1)
            then (Response 200 (Json
                    [(''success'', JBool True), (''qr'', JStr (str_of (tmp_qrCode s1))),
                     (''message'', JStr ''Scan this QR code with WhatsApp'')]), s1)
            else (Response 503 (Json
                    [(''success'', JBool False),
                     (''message'', JStr ''QR code not available yet. Try /api/connect first'')]), s1)))"

definition tmp_send :: "request \<Rightarrow> env \<Rightarrow> tmp_state \<Rightarrow> response \<times> tmp_state" where
  "tmp_send req env s =
     (if \<not> truthy (req_phone req) \<or> \<not> truthy (req_message req)
      then (Response 400 (Json
              [(''success'', JBool False), (''error'', JStr ''Phone and message are required'')]), s)
      else if \<not> tmp_isConnected s \<or> tmp_sock s = None
      then (Response 503 (Json
              [(''success'', JBool False),
               (''error'', JStr ''Bot not connected. Get QR code at /api/qr'')]), s)
      else (let formattedPhone = formatPhoneNumber (str_of (req_phone req));
                jid = formattedPhone @ ''@s.whatsapp.net'';
                s1 = s\<lparr>tmp_calls := tmp_calls s @ [OnWhatsApp jid]\<rparr>
            in case lookup env of
                 Throws m \<Rightarrow> (Response 500 (Json [(''success'', JBool False), (''error'', JStr m)]), s1)
               | Returns exists \<Rightarrow>
                   if \<not> exists
                   then (Response 404 (Json
                           [(''success'', JBool False),
                            (''error'', JStr ''Phone number not registered on WhatsApp'')]), s1)
                   else (let s2 = s1\<lparr>tmp_calls := tmp_calls s1 @ [SendMessage jid (str_of (req_message req))]\<rparr>
                         in case delivery env of
                              Throws m \<Rightarrow>
                                (Response 500 (Json [(''success'', JBool False), (''error'', JStr m)]), s2)
                            | Returns mid \<Rightarrow>
                                (Response 200 (Json
                                   [(''success'', JBool True),
                                    (''message'', JStr ''Message sent successfully''),
                                    (''to'', JStr formattedPhone),
                                    (''messageId'', JStr mid)]),
                                 s2\<lparr>tmp_lastActivity := sent_at env\<rparr>))))"

definition tmp_clear :: "tmp_state \<Rightarrow> response \<times> tmp_state" where
  "tmp_clear s =
     (let s1 = (case tmp_sock s of
                  None \<Rightarrow> s
                | Some k \<Rightarrow> s\<lparr>tmp_calls := tmp_calls s @ [SockEnd], tmp_sock := None\<rparr>);
          s2 = s1\<lparr>tmp_isConnected := False, tmp_qrCode := None,
                  tmp_calls := tmp_calls s1 @ [ReadDir]\<rparr>
      in case clear_auth_files (tmp_authFolder s2) of
           (d, None) \<Rightarrow>
             (Response 200 (Json
                [(''success'', JBool True), (''message'', JStr ''Auth cleared successfully'')]),
              s2\<lparr>tmp_authFolder := d\<rparr>)
         | (d, Some m) \<Rightarrow>
             (Response 500 (Json [(''success'', JBool False), (''error'', JStr m)]),
              s2\<lparr>tmp_authFolder := d\<rparr>))"

text \<open>The exported handler: CORS preflight, then \<^verbatim>\<open>keepAlive()\<close>, then the routes in order.\<close>

definition tmp_handler :: "request \<Rightarrow> env \<Rightarrow> tmp_state \<Rightarrow> response \<times> tmp_state" where
  "tmp_handler req env s0 =
     (if req_method req = ''OPTIONS'' then (Response 200 NoBody, s0)
      else (let s = keepAlive (now env) s0; p = req_pathname req in
            if p = ''/'' \<or> p = ''/api'' then (Response 200 Html, s)
            else if p = ''/api/status'' then tmp_status env s
            else if p = ''/api/connect'' \<and> req_method req = ''POST'' then tmp_connect env s
            else if p = ''/api/qr'' then tmp_qr env s
            else if p = ''/api/send'' \<and> req_method req = ''POST'' then tmp_send req env s
            else if p = ''/api/clear'' \<and> req_method req = ''POST'' then tmp_clear s
            else (Response 404 (Json
                    [(''error'', JStr ''Endpoint not found''),
                     (''available'', JArr [JStr ''/api/status'', JStr ''/api/qr'', JStr ''/api/connect'',
                                          JStr ''/api/send'', JStr ''/api/clear''])]), s)))"


section \<open>The Express service (long-running server, retry counter)\<close>

text \<open>
  Module state: \<^verbatim>\<open>sock\<close>, \<^verbatim>\<open>qrGenerated\<close>, \<^verbatim>\<open>isConnected\<close>, \<^verbatim>\<open>currentQR\<close>, \<^verbatim>\<open>connectionAttempts\<close>,
  the credential folder, the delays of the pending \<^verbatim>\<open>setTimeout\<close> callbacks (each of them
  calls \<^verbatim>\<open>connectToWhatsApp\<close>), and the log of calls made on the protocol client.
\<close>

record exp_state =
  exp_sock :: "socket option"
  exp_qrGenerated :: bool
  exp_isConnected :: bool
  exp_currentQR :: "string option"
  exp_connectionAttempts :: nat
  exp_authFolder :: "folder option"
  exp_timers :: "nat list"
  exp_calls :: "effect list"

definition MAX_RETRY_ATTEMPTS :: nat where
  "MAX_RETRY_ATTEMPTS = 3"

definition exp_initial :: "folder \<Rightarrow> exp_state" where
  "exp_initial d =
     \<lparr>exp_sock = None, exp_qrGenerated = False, exp_isConnected = False, exp_currentQR = None,
      exp_connectionAttempts = 0, exp_authFolder = Some d, exp_timers = [], exp_calls = []\<rparr>"

definition exp_connectToWhatsApp :: "setup_outcome \<Rightarrow> exp_state \<Rightarrow> exp_state" where
  "exp_connectToWhatsApp su s =
     (let s1 = s\<lparr>exp_connectionAttempts := exp_connectionAttempts s + 1\<rparr> in
      case su of
        SetupOk k \<Rightarrow> s1\<lparr>exp_sock := Some k, exp_calls := exp_calls s1 @ [MakeSocket]\<rparr>
      | SetupThrows m \<Rightarrow>
          if exp_connectionAttempts s1 < MAX_RETRY_ATTEMPTS
          then s1\<lparr>exp_timers := exp_timers s1 @ [10000]\<rparr>
          else s1\<lparr>exp_connectionAttempts := 0\<rparr>)"

text \<open>
  The \<^verbatim>\<open>connection.update\<close> listener. In the \<^verbatim>\<open>open\<close> branch the first statement reads
  \<^verbatim>\<open>sock.user.id\<close>; when that is undefined the listener throws before any assignment.
\<close>

definition exp_on_update :: "conn_update \<Rightarrow> exp_state \<Rightarrow> exp_state" where
  "exp_on_update u s =
     (let s1 = (if truthy (qr u)
                then s\<lparr>exp_currentQR := qr u, exp_qrGenerated := True, exp_isConnected := False,
                        exp_connectionAttempts := 0\<rparr>
                else s)
      in if connection u = Some Close
         then (let shouldReconnect = (statusCode u \<noteq> Some loggedOut);
                   s2 = s1\<lparr>exp_isConnected := False\<rparr>;
                   s3 = (if statusCode u = Some loggedOut
                         then s2\<lparr>exp_currentQR := None, exp_qrGenerated := False,
                                 exp_calls := exp_calls s2 @ [ReadDir],
                                 exp_authFolder := fst (clear_auth_files (exp_authFolder s2))\<rparr>
                         else s2)
               in if shouldReconnect
                  then (if exp_connectionAttempts s3 < MAX_RETRY_ATTEMPTS
                        then (let delay = min (5000 * exp_connectionAttempts s3) 15000 in
                              s3\<lparr>exp_timers := exp_timers s3 @ [delay]\<rparr>)
                        else (let s4 = s3\<lparr>exp_connectionAttempts := 0,
                                         exp_calls := exp_calls s3 @ [ReadDir]\<rparr> in
                              case clear_auth_files (exp_authFolder s4) of
                                (d, None) \<Rightarrow> s4\<lparr>exp_authFolder := d, exp_timers := exp_timers s4 @ [5000]\<rparr>
                              | (d, Some m) \<Rightarrow> s4\<lparr>exp_authFolder := d\<rparr>))
                  else s3)
         else if connection u = Some Open
         then (case exp_sock s1 of
                 None \<Rightarrow> s1
               | Some k \<Rightarrow>
                   (case user_id k of
                      None \<Rightarrow> s1
                    | Some i \<Rightarrow> s1\<lparr>exp_currentQR := None, exp_qrGenerated := False,
                                    exp_isConnected := True, exp_connectionAttempts := 0\<rparr>))
         else s1)"

text \<open>The \<open>i\<close>-th pending timer expires and its callback runs.\<close>

definition exp_timer_fires :: "nat \<Rightarrow> setup_outcome \<Rightarrow> exp_state \<Rightarrow> exp_state" where
  "exp_timer_fires i su s =
     (if i < length (exp_timers s)
      then exp_connectToWhatsApp su (s\<lparr>exp_timers := take i (exp_timers s) @ drop (Suc i) (exp_timers s)\<rparr>)
      else s)"

text \<open>
  What happens to the server between requests: it starts (the \<^verbatim>\<open>listen\<close> callback calls
  \<^verbatim>\<open>connectToWhatsApp\<close>), a pending timer expires, or the socket reports a connection
  update. A run handles a list of such events in order.
\<close>

datatype exp_event =
  ServerStart setup_outcome
| TimerFires nat setup_outcome
| ConnectionUpdate conn_update

fun exp_step :: "exp_event \<Rightarrow> exp_state \<Rightarrow> exp_state" where
  "exp_step (ServerStart su) s = exp_connectToWhatsApp su s"
| "exp_step (TimerFires i su) s = exp_timer_fires i su s"
| "exp_step (ConnectionUpdate u) s = exp_on_update u s"

definition exp_run :: "exp_event list \<Rightarrow> exp_state \<Rightarrow> exp_state" where
  "exp_run evs s = fold exp_step evs s"

text \<open>
  One failed reconnect: the pending timer expires, a socket is made, and the socket
  closes with the given status code and no pairing code.
\<close>

definition failed_attempt :: "socket \<Rightarrow> nat option \<Rightarrow> exp_event list" where
  "failed_attempt k code =
     [TimerFires 0 (SetupOk k),
      ConnectionUpdate \<lparr>connection = Some Close, statusCode = code, qr = None\<rparr>]"

definition wipe_passes :: "effect list \<Rightarrow> nat" where
  "wipe_passes cs = length (filter (\<lambda>c. c = ReadDir) cs)"

definition exp_clear_auth :: "exp_state \<Rightarrow> response \<times> exp_state" where
  "exp_clear_auth s =
     (case clear_auth_files (exp_authFolder s) of
        (d, Some m) \<Rightarrow>
          (Response 500 (Json [(''success'', JBool False), (''error'', JStr m)]),
           s\<lparr>exp_authFolder := d, exp_calls := exp_calls s @ [ReadDir]\<rparr>)
      | (d, None) \<Rightarrow>
          (let s1 = s\<lparr>exp_authFolder := d, exp_calls := exp_calls s @ [ReadDir],
                      exp_currentQR := None, exp_qrGenerated := False,
                      exp_isConnected := False, exp_connectionAttempts := 0\<rparr>;
               s2 = (case exp_sock s1 of
                       None \<Rightarrow> s1
                     | Some k \<Rightarrow> s1\<lparr>exp_calls := exp_calls s1 @ [SockEnd], exp_sock := None\<rparr>);
               s3 = s2\<lparr>exp_timers := exp_timers s2 @ [2000]\<rparr>
           in (Response 200 (Json
                 [(''success'', JBool True), (''message'', JStr ''Auth cleared. Reconnecting...'')]),
               s3)))"

definition exp_qr :: "exp_state \<Rightarrow> response \<times> exp_state" where
  "exp_qr s =
     (if truthy (exp_currentQR s)
      then (Response 200 (Json
              [(''success'', JBool True), (''qr'', JStr (str_of (exp_currentQR s))),
               (''message'', JStr ''Scan this QR code with WhatsApp''),
               (''length'', JNum (int (length (str_of (exp_currentQR s)))))]), s)
      else (Response 200 (Json
              [(''success'', JBool False),
               (''message'', JStr (if exp_isConnected s then ''Already connected''
                                   else ''QR not available yet'')),
               (''connected'', JBool (exp_isConnected s))]), s))"


definition exp_status :: "env \<Rightarrow> exp_state \<Rightarrow> response \<times> exp_state" where
  "exp_status env s =
     (Response 200 (Json
        [(''connected'', JBool (exp_isConnected s)),
         (''status'', JStr (if exp_isConnected s then ''connected'' else ''disconnected'')),
         (''qrRequired'', JBool (exp_qrGenerated s)),
         (''qrAvailable'', JBool (truthy (exp_currentQR s))),
         (''botNumber'', botNumber (exp_sock s)),
         (''botName'', (case exp_sock s of
                          None \<Rightarrow> JNull
                        | Some k \<Rightarrow> if truthy (user_name k) then JStr (str_of (user_name k)) else JNull)),
         (''uptime'', JNum (uptime env)),
         (''connectionAttempts'', JNum (int (exp_connectionAttempts s))),
         (''maxAttempts'', JNum (int MAX_RETRY_ATTEMPTS)),
         (''timestamp'', JDate (now env))]), s)"

definition exp_health :: "env \<Rightarrow> exp_state \<Rightarrow> response \<times> exp_state" where
  "exp_health env s =
     (Response 200 (Json
        [(''status'', JStr ''ok''), (''service'', JStr ''whatsapp-bot''),
         (''connected'', JBool (exp_isConnected s)), (''timestamp'', JDate (now env))]), s)"


section \<open>The Mongo service (serverless handler, credentials in a document collection)\<close>

text \<open>
  Module state: \<^verbatim>\<open>sock\<close>, \<^verbatim>\<open>qrCodeData\<close>, \<^verbatim>\<open>isConnected\<close>, the collection \<^verbatim>\<open>auth_state\<close> (key to data
  and update time), the delays of the pending \<^verbatim>\<open>setTimeout\<close> callbacks (each of them calls
  \<^verbatim>\<open>initWhatsApp\<close>), and the log of calls made on the protocol client. The cached database
  handle is not part of the model, and \<^verbatim>\<open>qrcode.toDataURL\<close> is taken to return.

  Every socket made keeps its listener, and the listener writes the module state. So
  while \<^verbatim>\<open>initWhatsApp\<close> awaits the protocol version and the stored credentials, updates of
  sockets made earlier are handled, and they are handled again while the send route
  awaits the recipient lookup; both lists come from the environment.
\<close>

type_synonym collection = "(string \<times> string \<times> int) list"

record mdb_state =
  mdb_sock :: "socket option"
  mdb_qrCodeData :: "qr_image option"
  mdb_isConnected :: bool
  mdb_auth_state :: collection
  mdb_timers :: "nat list"
  mdb_calls :: "effect list"

definition mdb_initial :: "collection \<Rightarrow> mdb_state" where
  "mdb_initial c =
     \<lparr>mdb_sock = None, mdb_qrCodeData = None, mdb_isConnected = False,
      mdb_auth_state = c, mdb_timers = [], mdb_calls = []\<rparr>"

definition writeData :: "string \<Rightarrow> string \<Rightarrow> int \<Rightarrow> collection \<Rightarrow> collection" where
  "writeData dat key t c = AList.update key (dat, t) c"

definition readData :: "string \<Rightarrow> collection \<Rightarrow> string option" where
  "readData key c = map_option fst (map_of c key)"

definition removeData :: "string \<Rightarrow> collection \<Rightarrow> collection" where
  "removeData key c = AList.delete key c"

definition saveCreds :: "int \<Rightarrow> mdb_state \<Rightarrow> mdb_state" where
  "saveCreds t s =
     (case mdb_sock s of
        None \<Rightarrow> s
      | Some k \<Rightarrow>
          (case auth_creds k of
             None \<Rightarrow> s
           | Some c \<Rightarrow> s\<lparr>mdb_auth_state := writeData c ''creds'' t (mdb_auth_state s)\<rparr>))"

text \<open>The \<^verbatim>\<open>connection.update\<close> listener, and a list of updates handled in order.\<close>

definition mdb_on_update :: "conn_update \<Rightarrow> mdb_state \<Rightarrow> mdb_state" where
  "mdb_on_update u s =
     (let s1 = (if truthy (qr u) then s\<lparr>mdb_qrCodeData := Some (DataURL (str_of (qr u)))\<rparr> else s)
      in if connection u = Some Close
         then (let shouldReconnect = (statusCode u \<noteq> Some loggedOut);
                   s2 = s1\<lparr>mdb_isConnected := False, mdb_sock := None\<rparr>
               in if shouldReconnect then s2\<lparr>mdb_timers := mdb_timers s2 @ [5000]\<rparr> else s2)
         else if connection u = Some Open
         then s1\<lparr>mdb_isConnected := True, mdb_qrCodeData := None\<rparr>
         else s1)"

definition mdb_on_updates :: "conn_update list \<Rightarrow> mdb_state \<Rightarrow> mdb_state" where
  "mdb_on_updates us s = fold mdb_on_update us s"

text \<open>
  \<^verbatim>\<open>initWhatsApp\<close>: the early return, then the awaits, during which the updates \<open>us\<close> are
  handled, then either a throw or a new socket. The result is the thrown message, if any.
\<close>

definition initWhatsApp ::
  "conn_update list \<Rightarrow> setup_outcome \<Rightarrow> mdb_state \<Rightarrow> string option \<times> mdb_state" where
  "initWhatsApp us su s =
     (if mdb_sock s \<noteq> None \<and> mdb_isConnected s then (None, s)
      else (let s1 = mdb_on_updates us s in
            case su of
              SetupThrows m \<Rightarrow> (Some m, s1)
            | SetupOk k \<Rightarrow> (None, s1\<lparr>mdb_sock := Some k, mdb_calls := mdb_calls s1 @ [MakeSocket]\<rparr>)))"

text \<open>
  The \<open>i\<close>-th pending timer expires. Its callback calls \<^verbatim>\<open>initWhatsApp()\<close> and drops the
  promise: when that call throws, the rejection is unhandled and the process exits, which
  is the result \<open>None\<close>.
\<close>

definition mdb_timer_fires ::
  "nat \<Rightarrow> conn_update list \<Rightarrow> setup_outcome \<Rightarrow> mdb_state \<Rightarrow> mdb_state option" where
  "mdb_timer_fires i us su s =
     (if i < length (mdb_timers s)
      then (case initWhatsApp us su
                   (s\<lparr>mdb_timers := take i (mdb_timers s) @ drop (Suc i) (mdb_timers s)\<rparr>) of
              (None, s') \<Rightarrow> Some s'
            | (Some m, s') \<Rightarrow> None)
      else Some s)"

text \<open>What the handler's outer \<^verbatim>\<open>catch\<close> answers.\<close>

definition handler_error :: "string \<Rightarrow> response" where
  "handler_error m = Response 500 (Json [(''success'', JBool False), (''error'', JStr m)])"

definition mdb_qr :: "env \<Rightarrow> mdb_state \<Rightarrow> response \<times> mdb_state" where
  "mdb_qr env s =
     (case (if mdb_sock s = None \<or> \<not> mdb_isConnected s
            then initWhatsApp (await_events env) (conn_setup env) s
            else (None, s)) of
        (Some m, s1) \<Rightarrow> (handler_error m, s1)
      | (None, s1) \<Rightarrow>
          (case mdb_qrCodeData s1 of
             Some img \<Rightarrow>
               (Response 200 (Json
                  [(''success'', JBool True), (''qr'', JImage img),
                   (''message'', JStr ''Scan this QR code with WhatsApp'')]), s1)
           | None \<Rightarrow>
               if mdb_isConnected s1
               then (Response 200 (Json
                       [(''success'', JBool False), (''message'', JStr ''Already connected''),
                        (''connected'', JBool True)]), s1)
               else (Response 200 (Json
                       [(''success'', JBool False),
                        (''message'', JStr ''QR not available yet, please wait...''),
                        (''connected'', JBool False)]), s1)))"

definition mdb_status :: "env \<Rightarrow> mdb_state \<Rightarrow> response \<times> mdb_state" where
  "mdb_status env s =
     (Response 200 (Json
        [(''status'', JStr (if mdb_isConnected s then ''connected'' else ''disconnected'')),
         (''qrRequired'', JBool (\<not> mdb_isConnected s \<and> mdb_qrCodeData s = None)),
         (''qrAvailable'', JBool (mdb_qrCodeData s \<noteq> None)),
         (''botNumber'', botNumber (mdb_sock s)),
         (''timestamp'', JDate (now env))]), s)"

definition mdb_send_message :: "request \<Rightarrow> env \<Rightarrow> mdb_state \<Rightarrow> response \<times> mdb_state" where
  "mdb_send_message req env s =
     (if \<not> truthy (req_phone req) \<or> \<not> truthy (req_message req)
      then (Response 400 (Json
              [(''success'', JBool False), (''error'', JStr ''Phone and message are required'')]), s)
      else case (if \<not> mdb_isConnected s \<or> mdb_sock s = None
                 then initWhatsApp (await_events env) (conn_setup env) s
                 else (None, s)) of
             (Some m, s0) \<Rightarrow> (handler_error m, s0)
           | (None, s0) \<Rightarrow>
               if (\<not> mdb_isConnected s \<or> mdb_sock s = None) \<and> \<not> mdb_isConnected s0
               then (Response 503 (Json
                       [(''success'', JBool False),
                        (''error'', JStr ''WhatsApp bot is not connected''),
                        (''hint'', JStr ''Please scan QR code first'')]), s0)
               else (let formattedPhone = formatPhoneNumber (str_of (req_phone req));
                         jid = formattedPhone @ ''@s.whatsapp.net'';
                         s1 = mdb_on_updates (lookup_events env)
                                (s0\<lparr>mdb_calls := mdb_calls s0 @ [OnWhatsApp jid]\<rparr>)
                     in case lookup env of
                          Throws m \<Rightarrow> (handler_error m, s1)
                        | Returns exists \<Rightarrow>
                            if \<not> exists
                            then (Response 404 (Json
                                    [(''success'', JBool False),
                                     (''error'', JStr ''Phone number not registered on WhatsApp''),
                                     (''phone'', JStr formattedPhone)]), s1)
                            else if mdb_sock s1 = None
                            then (handler_error
                                    ''Cannot read properties of null'', s1)
                            else (let s2 = s1\<lparr>mdb_calls := mdb_calls s1 @
                                              [SendMessage jid (str_of (req_message req))]\<rparr>
                                  in case delivery env of
                                       Throws m \<Rightarrow> (handler_error m, s2)
                                     | Returns mid \<Rightarrow>
                                         (Response 200 (Json
                                            [(''success'', JBool True),
                                             (''message'', JStr ''Message sent successfully''),
                                             (''to'', JStr formattedPhone),
                                             (''messageId'', JStr mid),
                                             (''timestamp'', JDate (sent_at env))]), s2))))"

definition mdb_health :: "env \<Rightarrow> mdb_state \<Rightarrow> response \<times> mdb_state" where
  "mdb_health env s =
     (Response 200 (Json
        [(''status'', JStr ''ok''), (''service'', JStr ''whatsapp-bot-vercel''),
         (''connected'', JBool (mdb_isConnected s)), (''timestamp'', JDate (now env))]), s)"

definition mdb_handler :: "request \<Rightarrow> env \<Rightarrow> mdb_state \<Rightarrow> response \<times> mdb_state" where
  "mdb_handler req env s =
     (if req_method req = ''OPTIONS'' then (Response 200 NoBody, s)
      else (let p = req_pathname req; m = req_method req in
            if p = ''/'' \<and> m = ''GET'' then (Response 200 Html, s)
            else if p = ''/qr'' \<and> m = ''GET'' then mdb_qr env s
            else if p = ''/status'' \<and> m = ''GET'' then mdb_status env s
            else if p = ''/send-message'' \<and> m = ''POST'' then mdb_send_message req env s
            else if p = ''/health'' \<and> m = ''GET'' then mdb_health env s
            else (Response 404 (Json
                    [(''success'', JBool False), (''error'', JStr ''Endpoint not found'')]), s)))"


section \<open>Scenarios\<close>

text \<open>
  The request of the specification's send scenario, on a given method and path; an
  environment in which the clock reads \<open>t\<close>, a connection set-up has the given outcome, no
  event arrives, and the protocol layer answers every lookup and send; a socket
  that knows no identity yet; a folder in which every entry is a regular file with a name
  of its own.
\<close>

definition scenario_request :: "string \<Rightarrow> string \<Rightarrow> request" where
  "scenario_request m p =
     \<lparr>req_method = m, req_pathname = p, req_origin = ''http://localhost:3000'',
      req_phone = Some ''081234567890'', req_message = Some ''hi''\<rparr>"

definition scenario_env :: "int \<Rightarrow> setup_outcome \<Rightarrow> env" where
  "scenario_env t su =
     \<lparr>now = t, uptime = 0, conn_setup = su, conn_events = [], await_events = [],
      lookup = Returns True, lookup_events = [], delivery = Returns ''3EB0'', sent_at = t\<rparr>"

definition fresh_socket :: socket where
  "fresh_socket = \<lparr>user_id = None, user_name = None, auth_creds = None\<rparr>"

text \<open>A /tmp session that connected at time 0 and has not been touched since.\<close>

definition idle_session :: tmp_state where
  "idle_session =
     \<lparr>tmp_sock = Some fresh_socket, tmp_qrCode = None, tmp_isConnected = True,
      tmp_lastActivity = 0, tmp_authFolder = Some [(''creds.json'', RegularFile)],
      tmp_calls = [MakeSocket]\<rparr>"

text \<open>An Express server and a Mongo function, each linked, with stored credentials.\<close>

definition linked_server :: exp_state where
  "linked_server =
     \<lparr>exp_sock = Some fresh_socket, exp_qrGenerated = False, exp_isConnected = True,
      exp_currentQR = None, exp_connectionAttempts = 0,
      exp_authFolder = Some [(''creds.json'', RegularFile)], exp_timers = [],
      exp_calls = [MakeSocket]\<rparr>"

definition linked_function :: mdb_state where
  "linked_function =
     \<lparr>mdb_sock = Some fresh_socket, mdb_qrCodeData = None, mdb_isConnected = True,
      mdb_auth_state = [(''creds'', (''noiseKey'', 0))], mdb_timers = [],
      mdb_calls = [MakeSocket]\<rparr>"

text \<open>
  Connection updates: a close after a logout, a close after a timeout (408), a pairing
  code, an open.
\<close>

definition logout_close :: conn_update where
  "logout_close = \<lparr>connection = Some Close, statusCode = Some loggedOut, qr = None\<rparr>"

definition timeout_close :: conn_update where
  "timeout_close = \<lparr>connection = Some Close, statusCode = Some 408, qr = None\<rparr>"

definition pairing_update :: "string \<Rightarrow> conn_update" where
  "pairing_update q = \<lparr>connection = None, statusCode = None, qr = Some q\<rparr>"

definition open_update :: conn_update where
  "open_update = \<lparr>connection = Some Open, statusCode = None, qr = None\<rparr>"

text \<open>A /tmp session after its teardown: socket ended, handle null, connected flag clear.\<close>

definition torn_down :: "tmp_state \<Rightarrow> tmp_state" where
  "torn_down s = s\<lparr>tmp_calls := tmp_calls s @ [SockEnd], tmp_sock := None, tmp_isConnected := False\<rparr>"

definition regular_files :: "folder \<Rightarrow> bool" where
  "regular_files d = (distinct (map fst d) \<and> list_all (\<lambda>e. snd e = RegularFile) d)"




section \<open>Destination numbers: properties\<close>

lemma startsWith_prefix: "startsWith s p = prefix p s"
  by (auto simp: startsWith_def prefix_def take_is_prefix)
     (metis append_eq_conv_conj)

lemma strip_is_spec_strip: "strip_non_digits p = spec_strip p"
  by (auto simp: strip_non_digits_def spec_strip_def is_digit_def intro: filter_cong)

lemma strip_digits_only: "list_all is_digit (strip_non_digits p)"
  by (simp add: strip_non_digits_def list_all_iff)

lemma strip_fixes_digits: "list_all is_digit d \<Longrightarrow> strip_non_digits d = d"
  by (simp add: strip_non_digits_def list_all_iff)

lemma format_by_cases:
  "formatPhoneNumber p =
     (case strip_non_digits p of
        [] \<Rightarrow> ''62''
      | c # r \<Rightarrow> if c = CHR ''0'' then ''62'' @ r
                 else if prefix ''62'' (c # r) then c # r else ''62'' @ c # r)"
  by (cases "strip_non_digits p")
     (simp_all add: formatPhoneNumber_def startsWith_prefix substring_def)

lemma format_starts_62: "prefix ''62'' (formatPhoneNumber p)"
  by (simp add: format_by_cases split: list.split)

lemma format_digits_only: "list_all is_digit (formatPhoneNumber p)"
proof -
  have d: "list_all is_digit (strip_non_digits p)" by (rule strip_digits_only)
  have c: "list_all is_digit ''62''" by (simp add: is_digit_def)
  show ?thesis
  proof (cases "strip_non_digits p")
    case Nil
    then show ?thesis using c by (simp add: format_by_cases)
  next
    case (Cons a r)
    with d have "is_digit a" "list_all is_digit r" by simp_all
    with Cons c show ?thesis by (simp add: format_by_cases)
  qed
qed

text \<open>
  Claim C4. Normalisation strips the non-digits, replaces a leading 0 of what is left by
  62, and prepends 62 when what is left does not begin with 62: the function of the
  source equals the three steps of the specification run in sequence. In particular a
  destination whose digits begin with the trunk digit 0 is normalised to 62 followed by
  the remaining digits, which is also the result for the same destination with that 0
  replaced by 62.
\<close>

theorem C4_normalization:
  "formatPhoneNumber phone = spec_normalize phone
   \<and> (strip_non_digits phone = CHR ''0'' # r \<longrightarrow> formatPhoneNumber phone = ''62'' @ r)
   \<and> (list_all (\<lambda>c. \<not> is_digit c) pre \<longrightarrow>
        formatPhoneNumber (pre @ CHR ''0'' # rest) = formatPhoneNumber (pre @ ''62'' @ rest))"
proof (intro conjI impI)
  show "formatPhoneNumber phone = spec_normalize phone"
    by (cases "spec_strip phone")
       (simp_all add: format_by_cases strip_is_spec_strip spec_normalize_def
          spec_map_trunk_def spec_prepend_country_def)
next
  assume "strip_non_digits phone = CHR ''0'' # r"
  then show "formatPhoneNumber phone = ''62'' @ r"
    by (simp add: format_by_cases)
next
  assume "list_all (\<lambda>c. \<not> is_digit c) pre"
  then have e: "filter is_digit pre = []"
    by (simp add: list_all_iff)
  have six: "is_digit CHR ''6''" and two: "is_digit CHR ''2''" and zero: "is_digit CHR ''0''"
    by (simp_all add: is_digit_def)
  have a: "strip_non_digits (pre @ CHR ''0'' # rest) = CHR ''0'' # strip_non_digits rest"
    using e zero by (simp add: strip_non_digits_def)
  have b: "strip_non_digits (pre @ ''62'' @ rest) = ''62'' @ strip_non_digits rest"
    using e six two by (simp add: strip_non_digits_def)
  show "formatPhoneNumber (pre @ CHR ''0'' # rest) = formatPhoneNumber (pre @ ''62'' @ rest)"
    unfolding format_by_cases a b by simp
qed

theorem C4_normalization_witness:
  "strip_non_digits ''+0812-345'' = CHR ''0'' # ''812345''
   \<and> list_all (\<lambda>c. \<not> is_digit c) ''(+''
   \<and> formatPhoneNumber ''+0812-345'' = ''62812345''
   \<and> formatPhoneNumber (''(+'' @ CHR ''0'' # ''812) 345'') = ''62812345''"
  using C4_normalization [of "''+0812-345''" "''812345''" "''(+''" "''812) 345''"]
  by (simp add: strip_non_digits_def is_digit_def formatPhoneNumber_def startsWith_def)

text \<open>
  Claim C9. For every input string the result of \<^verbatim>\<open>formatPhoneNumber\<close> consists of digits
  only and begins with 62; applying the function to its own result changes nothing.
\<close>

theorem C9_digits_prefix_idempotent:
  "list_all is_digit (formatPhoneNumber phone)
   \<and> startsWith (formatPhoneNumber phone) ''62''
   \<and> formatPhoneNumber (formatPhoneNumber phone) = formatPhoneNumber phone"
proof (intro conjI)
  show "list_all is_digit (formatPhoneNumber phone)" by (rule format_digits_only)
next
  show "startsWith (formatPhoneNumber phone) ''62''"
    by (simp only: startsWith_prefix format_starts_62)
next
  obtain t where t: "formatPhoneNumber phone = ''62'' @ t"
    using format_starts_62 [of phone] by (auto simp: prefix_def)
  have s: "strip_non_digits (formatPhoneNumber phone) = formatPhoneNumber phone"
    by (rule strip_fixes_digits [OF format_digits_only])
  have s': "strip_non_digits (CHR ''6'' # CHR ''2'' # t) = CHR ''6'' # CHR ''2'' # t"
    using s by (simp add: t)
  have "formatPhoneNumber (CHR ''6'' # CHR ''2'' # t) = CHR ''6'' # CHR ''2'' # t"
    by (subst format_by_cases) (simp add: s')
  then show "formatPhoneNumber (formatPhoneNumber phone) = formatPhoneNumber phone"
    by (simp add: t)
qed

theorem C9_digits_prefix_idempotent_witness:
  "formatPhoneNumber ''0812 34'' = ''6281234''
   \<and> list_all is_digit ''6281234'' \<and> startsWith ''6281234'' ''62''
   \<and> formatPhoneNumber ''6281234'' = ''6281234''"
  using C9_digits_prefix_idempotent [of "''0812 34''"]
  by (simp add: strip_non_digits_def is_digit_def formatPhoneNumber_def startsWith_def substring_def)


section \<open>The credential folder: properties\<close>

lemma unlink_each_done:
  "unlink_each ns d = (d', None) \<Longrightarrow> set d' \<subseteq> set d \<and> fst ` set d' \<inter> set ns = {}"
proof (induction ns arbitrary: d)
  case Nil
  then show ?case by simp
next
  case (Cons n ns)
  show ?case
  proof (cases "map_of d n")
    case None
    with Cons.prems show ?thesis by simp
  next
    case (Some k)
    show ?thesis
    proof (cases k)
      case Directory
      with Some Cons.prems show ?thesis by simp
    next
      case RegularFile
      with Some Cons.prems
      have u: "unlink_each ns (filter (\<lambda>e. fst e \<noteq> n) d) = (d', None)" by simp
      from Cons.IH [OF u]
      have a: "set d' \<subseteq> set (filter (\<lambda>e. fst e \<noteq> n) d)" and b: "fst ` set d' \<inter> set ns = {}"
        by simp_all
      from a have "set d' \<subseteq> set d" and "n \<notin> fst ` set d'" by auto
      with b show ?thesis by auto
    qed
  qed
qed

lemma clear_auth_files_done:
  assumes "clear_auth_files fo = (fo', None)"
  shows "fo' = Some []"
proof (cases fo)
  case None
  with assms show ?thesis by (simp add: clear_auth_files_def)
next
  case (Some d)
  with assms obtain d' where u: "unlink_each (map fst d) d = (d', None)" and f: "fo' = Some d'"
    by (cases "unlink_each (map fst d) d") (simp add: clear_auth_files_def)
  from unlink_each_done [OF u] have a: "set d' \<subseteq> set d" and b: "fst ` set d' \<inter> fst ` set d = {}"
    by simp_all
  have "d' = []"
  proof (cases d')
    case Nil
    then show ?thesis .
  next
    case (Cons x xs)
    then have "x \<in> set d'" by simp
    with a have "fst x \<in> fst ` set d'" "fst x \<in> fst ` set d" by auto
    with b show ?thesis by auto
  qed
  with f show ?thesis by simp
qed

lemma unlink_each_regular:
  "regular_files d \<Longrightarrow> unlink_each (map fst d) d = ([], None)"
proof (induction d)
  case Nil
  then show ?case by simp
next
  case (Cons e d)
  obtain n k where e: "e = (n, k)" by (cases e)
  from Cons.prems have p: "distinct (map fst (e # d))" "list_all (\<lambda>e. snd e = RegularFile) (e # d)"
    unfolding regular_files_def by blast+
  from p e have k: "k = RegularFile" by simp
  from p e have n: "n \<notin> fst ` set d" by simp
  from p have r: "regular_files d" unfolding regular_files_def by simp
  from n have "\<forall>x\<in>set d. fst x \<noteq> n" by blast
  then have f: "filter (\<lambda>x. fst x \<noteq> n) d = d" by (rule iffD2 [OF filter_id_conv])
  have m: "map_of ((n, RegularFile) # d) n = Some RegularFile" by simp
  have f2: "filter (\<lambda>x. fst x \<noteq> n) ((n, RegularFile) # d) = d" using f by simp
  have "unlink_each (n # map fst d) ((n, RegularFile) # d) = unlink_each (map fst d) d"
    by (simp only: unlink_each.simps m f2 option.case entry_kind.case)
  then show ?case using Cons.IH [OF r] by (simp add: e k)
qed

lemma clear_auth_files_regular:
  "regular_files d \<Longrightarrow> clear_auth_files (Some d) = (Some [], None)"
  by (simp add: clear_auth_files_def unlink_each_regular)

section \<open>The services: properties\<close>

lemma keepAlive_disconnected:
  "\<not> tmp_isConnected s \<or> tmp_sock s = None \<Longrightarrow> keepAlive t s = s"
  by (auto simp: keepAlive_def)



lemma mdb_on_update_calls: "mdb_calls (mdb_on_update u s) = mdb_calls s"
  by (simp add: mdb_on_update_def Let_def)

lemma mdb_on_updates_calls: "mdb_calls (mdb_on_updates us s) = mdb_calls s"
  by (induction us arbitrary: s) (simp_all add: mdb_on_updates_def mdb_on_update_calls)








text \<open>
  Claim C6, amended. Before any connection attempt, the status route of the Express and
  of the /tmp service answers \<^verbatim>\<open>connected:false\<close>, \<^verbatim>\<open>qrAvailable:false\<close>, \<^verbatim>\<open>botNumber:null\<close>.
  The status route of the Mongo service carries no \<^verbatim>\<open>connected\<close> field: it answers
  \<^verbatim>\<open>status:'disconnected'\<close>, \<^verbatim>\<open>qrAvailable:false\<close>, \<^verbatim>\<open>botNumber:null\<close>.
\<close>

theorem C6_initial_status:
  "json_field ''connected'' (fst (exp_status env (exp_initial d))) = Some (JBool False)
   \<and> json_field ''qrAvailable'' (fst (exp_status env (exp_initial d))) = Some (JBool False)
   \<and> json_field ''botNumber'' (fst (exp_status env (exp_initial d))) = Some JNull
   \<and> json_field ''connected''
        (fst (tmp_handler (req\<lparr>req_method := ''GET'', req_pathname := ''/api/status''\<rparr>) env
               (tmp_initial t d))) = Some (JBool False)
   \<and> json_field ''qrAvailable''
        (fst (tmp_handler (req\<lparr>req_method := ''GET'', req_pathname := ''/api/status''\<rparr>) env
               (tmp_initial t d))) = Some (JBool False)
   \<and> json_field ''botNumber''
        (fst (tmp_handler (req\<lparr>req_method := ''GET'', req_pathname := ''/api/status''\<rparr>) env
               (tmp_initial t d))) = Some JNull
   \<and> json_field ''connected''
        (fst (mdb_handler (req\<lparr>req_method := ''GET'', req_pathname := ''/status''\<rparr>) env
               (mdb_initial c))) = None
   \<and> json_field ''status''
        (fst (mdb_handler (req\<lparr>req_method := ''GET'', req_pathname := ''/status''\<rparr>) env
               (mdb_initial c))) = Some (JStr ''disconnected'')
   \<and> json_field ''qrAvailable''
        (fst (mdb_handler (req\<lparr>req_method := ''GET'', req_pathname := ''/status''\<rparr>) env
               (mdb_initial c))) = Some (JBool False)
   \<and> json_field ''botNumber''
        (fst (mdb_handler (req\<lparr>req_method := ''GET'', req_pathname := ''/status''\<rparr>) env
               (mdb_initial c))) = Some JNull"
proof -
  have e: "fst (exp_status env (exp_initial d)) =
      Response 200 (Json
        [(''connected'', JBool False), (''status'', JStr ''disconnected''),
         (''qrRequired'', JBool False), (''qrAvailable'', JBool False),
         (''botNumber'', JNull), (''botName'', JNull), (''uptime'', JNum (uptime env)),
         (''connectionAttempts'', JNum 0), (''maxAttempts'', JNum (int MAX_RETRY_ATTEMPTS)),
         (''timestamp'', JDate (now env))])"
    by (simp add: exp_status_def exp_initial_def truthy_def botNumber_def)
  have k: "keepAlive (now env) (tmp_initial t d) = tmp_initial t d"
    by (simp add: keepAlive_def tmp_initial_def)
  have t: "fst (tmp_handler (req\<lparr>req_method := ''GET'', req_pathname := ''/api/status''\<rparr>) env
               (tmp_initial t d)) =
      Response 200 (Json
        [(''connected'', JBool False), (''qrAvailable'', JBool False), (''botNumber'', JNull),
         (''lastActivity'', JNum t), (''timestamp'', JDate (now env))])"
    by (simp add: tmp_handler_def k) (simp add: tmp_status_def tmp_initial_def truthy_def botNumber_def)
  have m: "fst (mdb_handler (req\<lparr>req_method := ''GET'', req_pathname := ''/status''\<rparr>) env
               (mdb_initial c)) =
      Response 200 (Json
        [(''status'', JStr ''disconnected''), (''qrRequired'', JBool True),
         (''qrAvailable'', JBool False), (''botNumber'', JNull), (''timestamp'', JDate (now env))])"
    by (simp add: mdb_handler_def mdb_status_def mdb_initial_def botNumber_def)
  show ?thesis
    unfolding e t m by (simp add: json_field_def)
qed

text \<open>The status answer of the fresh Mongo service has no \<^verbatim>\<open>connected\<close> field.\<close>

theorem C6_counterexample:
  "json_field ''connected''
     (fst (mdb_handler (scenario_request ''GET'' ''/status'') (scenario_env 0 (SetupOk fresh_socket))
            (mdb_initial []))) = None"
  by (simp add: scenario_request_def mdb_handler_def mdb_status_def json_field_def)



lemma tmp_clear_calls:
  "tmp_calls (snd (tmp_clear s)) = tmp_calls s @ (if tmp_sock s = None then [] else [SockEnd]) @ [ReadDir]"
  by (cases "clear_auth_files (tmp_authFolder s)"; cases "snd (clear_auth_files (tmp_authFolder s))";
      cases "tmp_sock s") (simp_all add: tmp_clear_def)

lemma tmp_clear_memory:
  "tmp_sock (snd (tmp_clear s)) = None \<and> \<not> tmp_isConnected (snd (tmp_clear s))
   \<and> tmp_qrCode (snd (tmp_clear s)) = None
   \<and> tmp_lastActivity (snd (tmp_clear s)) = tmp_lastActivity s"
  by (cases "clear_auth_files (tmp_authFolder s)"; cases "snd (clear_auth_files (tmp_authFolder s))";
      cases "tmp_sock s") (simp_all add: tmp_clear_def)

lemma tmp_clear_folder:
  "tmp_authFolder (snd (tmp_clear s)) = fst (clear_auth_files (tmp_authFolder s))"
  by (cases "clear_auth_files (tmp_authFolder s)"; cases "snd (clear_auth_files (tmp_authFolder s))";
      cases "tmp_sock s") (simp_all add: tmp_clear_def)

lemma tmp_clear_response:
  "fst (tmp_clear s) =
     (case snd (clear_auth_files (tmp_authFolder s)) of
        None \<Rightarrow> Response 200 (Json [(''success'', JBool True),
                                     (''message'', JStr ''Auth cleared successfully'')])
      | Some m \<Rightarrow> Response 500 (Json [(''success'', JBool False), (''error'', JStr m)]))"
  by (cases "clear_auth_files (tmp_authFolder s)"; cases "snd (clear_auth_files (tmp_authFolder s))";
      cases "tmp_sock s") (simp_all add: tmp_clear_def)

lemma keepAlive_frame:
  "tmp_authFolder (keepAlive t s) = tmp_authFolder s \<and> tmp_qrCode (keepAlive t s) = tmp_qrCode s
   \<and> tmp_lastActivity (keepAlive t s) = tmp_lastActivity s"
  by (simp add: keepAlive_def Let_def)

lemma keepAlive_then_end:
  "tmp_calls (keepAlive t s) @ (if tmp_sock (keepAlive t s) = None then [] else [SockEnd])
     = tmp_calls s @ (if tmp_sock s = None then [] else [SockEnd])"
  by (simp add: keepAlive_def Let_def)

lemma tmp_handler_clear:
  "req_method req = ''POST'' \<Longrightarrow> req_pathname req = ''/api/clear'' \<Longrightarrow>
   tmp_handler req env s = tmp_clear (keepAlive (now env) s)"
  by (simp add: tmp_handler_def)


lemma exp_clear_auth_ok:
  assumes "status (fst (exp_clear_auth s)) = 200"
  shows "snd (exp_clear_auth s) =
           s\<lparr>exp_authFolder := Some [],
              exp_calls := exp_calls s @ [ReadDir] @ (if exp_sock s = None then [] else [SockEnd]),
              exp_currentQR := None, exp_qrGenerated := False, exp_isConnected := False,
              exp_connectionAttempts := 0, exp_sock := None,
              exp_timers := exp_timers s @ [2000]\<rparr>"
proof -
  obtain d e where c: "clear_auth_files (exp_authFolder s) = (d, e)"
    by (cases "clear_auth_files (exp_authFolder s)")
  from assms c have e: "e = None"
    by (cases e) (simp_all add: exp_clear_auth_def)
  with c have d: "d = Some []"
    by (simp add: clear_auth_files_done)
  show ?thesis
    by (cases "exp_sock s") (simp_all add: exp_clear_auth_def c e d)
qed

text \<open>
  Claim C5. When the clear route answers success (\<^verbatim>\<open>POST /clear-auth\<close> of the Express service,
  \<^verbatim>\<open>POST /api/clear\<close> of the /tmp service), the session handle is null and a handle that
  existed has been ended, the credential folder is empty, the pairing code is discarded,
  the connected flag is clear, and the next status read reports \<^verbatim>\<open>connected:false\<close>. The
  Express service, the one with a retry counter, has reset it to zero.
\<close>

theorem C5_clear_resets:
  "(status (fst (exp_clear_auth es)) = 200 \<longrightarrow>
      exp_sock (snd (exp_clear_auth es)) = None
      \<and> exp_calls (snd (exp_clear_auth es)) =
          exp_calls es @ [ReadDir] @ (if exp_sock es = None then [] else [SockEnd])
      \<and> exp_authFolder (snd (exp_clear_auth es)) = Some []
      \<and> exp_connectionAttempts (snd (exp_clear_auth es)) = 0
      \<and> exp_currentQR (snd (exp_clear_auth es)) = None
      \<and> \<not> exp_isConnected (snd (exp_clear_auth es))
      \<and> json_field ''connected'' (fst (exp_status env' (snd (exp_clear_auth es)))) = Some (JBool False))
   \<and> (req_method req = ''POST'' \<and> req_pathname req = ''/api/clear''
        \<and> status (fst (tmp_handler req env ts)) = 200 \<longrightarrow>
      tmp_sock (snd (tmp_handler req env ts)) = None
      \<and> tmp_calls (snd (tmp_handler req env ts)) =
          tmp_calls ts @ (if tmp_sock ts = None then [] else [SockEnd]) @ [ReadDir]
      \<and> tmp_authFolder (snd (tmp_handler req env ts)) = Some []
      \<and> tmp_qrCode (snd (tmp_handler req env ts)) = None
      \<and> \<not> tmp_isConnected (snd (tmp_handler req env ts))
      \<and> json_field ''connected''
           (fst (tmp_handler (req'\<lparr>req_method := ''GET'', req_pathname := ''/api/status''\<rparr>) env'
                  (snd (tmp_handler req env ts)))) = Some (JBool False))"
proof (intro conjI impI)
  assume a: "status (fst (exp_clear_auth es)) = 200"
  note r = exp_clear_auth_ok [OF a]
  show "exp_sock (snd (exp_clear_auth es)) = None"
    and "exp_calls (snd (exp_clear_auth es)) =
          exp_calls es @ [ReadDir] @ (if exp_sock es = None then [] else [SockEnd])"
    and "exp_authFolder (snd (exp_clear_auth es)) = Some []"
    and "exp_connectionAttempts (snd (exp_clear_auth es)) = 0"
    and "exp_currentQR (snd (exp_clear_auth es)) = None"
    and "\<not> exp_isConnected (snd (exp_clear_auth es))"
    and "json_field ''connected'' (fst (exp_status env' (snd (exp_clear_auth es)))) = Some (JBool False)"
    unfolding r by (simp_all add: exp_status_def json_field_def)
next
  assume a: "req_method req = ''POST'' \<and> req_pathname req = ''/api/clear''
        \<and> status (fst (tmp_handler req env ts)) = 200"
  define k where "k = keepAlive (now env) ts"
  from a have h: "tmp_handler req env ts = tmp_clear k"
    by (simp add: tmp_handler_clear k_def)
  from a have ok: "snd (clear_auth_files (tmp_authFolder k)) = None"
    unfolding h tmp_clear_response by (cases "snd (clear_auth_files (tmp_authFolder k))") simp_all
  have "clear_auth_files (tmp_authFolder k) = (fst (clear_auth_files (tmp_authFolder k)), None)"
    using ok by (metis prod.collapse)
  then have e: "fst (clear_auth_files (tmp_authFolder k)) = Some []"
    by (rule clear_auth_files_done)
  show "tmp_sock (snd (tmp_handler req env ts)) = None"
    and "tmp_qrCode (snd (tmp_handler req env ts)) = None"
    and "\<not> tmp_isConnected (snd (tmp_handler req env ts))"
    unfolding h by (simp_all add: tmp_clear_memory)
  show "tmp_authFolder (snd (tmp_handler req env ts)) = Some []"
    unfolding h by (simp add: tmp_clear_folder e)
  show "tmp_calls (snd (tmp_handler req env ts)) =
          tmp_calls ts @ (if tmp_sock ts = None then [] else [SockEnd]) @ [ReadDir]"
    unfolding h tmp_clear_calls k_def
    using keepAlive_then_end [of "now env" ts] by simp
  have n: "keepAlive (now env') (snd (tmp_clear k)) = snd (tmp_clear k)"
    by (rule keepAlive_disconnected) (simp add: tmp_clear_memory)
  show "json_field ''connected''
           (fst (tmp_handler (req'\<lparr>req_method := ''GET'', req_pathname := ''/api/status''\<rparr>) env'
                  (snd (tmp_handler req env ts)))) = Some (JBool False)"
    unfolding h
    by (simp add: tmp_handler_def n) (simp add: tmp_status_def json_field_def tmp_clear_memory)
qed

text \<open>
  A linked Express server and a linked /tmp session, each holding one credential file.
\<close>

theorem C5_clear_resets_witness:
  "status (fst (exp_clear_auth linked_server)) = 200
   \<and> exp_sock (snd (exp_clear_auth linked_server)) = None
   \<and> exp_authFolder (snd (exp_clear_auth linked_server)) = Some []
   \<and> exp_calls (snd (exp_clear_auth linked_server)) = [MakeSocket, ReadDir, SockEnd]
   \<and> status (fst (tmp_handler (scenario_request ''POST'' ''/api/clear'')
                      (scenario_env 1000 (SetupOk fresh_socket)) idle_session)) = 200
   \<and> tmp_sock (snd (tmp_handler (scenario_request ''POST'' ''/api/clear'')
                      (scenario_env 1000 (SetupOk fresh_socket)) idle_session)) = None
   \<and> tmp_authFolder (snd (tmp_handler (scenario_request ''POST'' ''/api/clear'')
                      (scenario_env 1000 (SetupOk fresh_socket)) idle_session)) = Some []
   \<and> tmp_calls (snd (tmp_handler (scenario_request ''POST'' ''/api/clear'')
                      (scenario_env 1000 (SetupOk fresh_socket)) idle_session))
       = [MakeSocket, SockEnd, ReadDir]"
proof -
  have e: "status (fst (exp_clear_auth linked_server)) = 200"
    by (simp add: exp_clear_auth_def linked_server_def clear_auth_files_def)
  have k: "keepAlive 1000 idle_session = idle_session"
    by (simp add: keepAlive_def idle_session_def CONNECTION_TIMEOUT_def)
  have t: "req_method (scenario_request ''POST'' ''/api/clear'') = ''POST''
      \<and> req_pathname (scenario_request ''POST'' ''/api/clear'') = ''/api/clear''
      \<and> status (fst (tmp_handler (scenario_request ''POST'' ''/api/clear'')
                      (scenario_env 1000 (SetupOk fresh_socket)) idle_session)) = 200"
    by (simp add: tmp_handler_def scenario_request_def scenario_env_def k)
       (simp add: tmp_clear_def idle_session_def clear_auth_files_def)
  have x: "exp_calls linked_server = [MakeSocket]" "exp_sock linked_server \<noteq> None"
    "tmp_calls idle_session = [MakeSocket]" "tmp_sock idle_session \<noteq> None"
    by (simp_all add: linked_server_def idle_session_def)
  show ?thesis
    using e t x
      C5_clear_resets [of linked_server env "scenario_request ''POST'' ''/api/clear''"
        "scenario_env 1000 (SetupOk fresh_socket)" idle_session req]
    by simp
qed

text \<open>
  Claim C10. In the /tmp service, when the deletion of the credential files fails, the
  clear route answers 500 with \<^verbatim>\<open>success:false\<close>, and yet the socket has been ended and
  nulled, the connected flag cleared and the pairing code discarded: the socket is ended
  before the folder is read.
\<close>

theorem C10_clear_not_atomic:
  "req_method req = ''POST'' \<and> req_pathname req = ''/api/clear''
   \<and> snd (clear_auth_files (tmp_authFolder ts)) \<noteq> None \<longrightarrow>
     status (fst (tmp_handler req env ts)) = 500
     \<and> json_field ''success'' (fst (tmp_handler req env ts)) = Some (JBool False)
     \<and> tmp_sock (snd (tmp_handler req env ts)) = None
     \<and> \<not> tmp_isConnected (snd (tmp_handler req env ts))
     \<and> tmp_qrCode (snd (tmp_handler req env ts)) = None
     \<and> tmp_calls (snd (tmp_handler req env ts)) =
         tmp_calls ts @ (if tmp_sock ts = None then [] else [SockEnd]) @ [ReadDir]"
proof (intro impI)
  assume a: "req_method req = ''POST'' \<and> req_pathname req = ''/api/clear''
   \<and> snd (clear_auth_files (tmp_authFolder ts)) \<noteq> None"
  define k where "k = keepAlive (now env) ts"
  from a have h: "tmp_handler req env ts = tmp_clear k"
    by (simp add: tmp_handler_clear k_def)
  have f: "tmp_authFolder k = tmp_authFolder ts"
    by (simp add: k_def keepAlive_frame)
  from a obtain m where m: "snd (clear_auth_files (tmp_authFolder k)) = Some m"
    unfolding f by auto
  have r: "fst (tmp_clear k) = Response 500 (Json [(''success'', JBool False), (''error'', JStr m)])"
    by (simp add: tmp_clear_response m)
  have c: "tmp_calls (snd (tmp_clear k)) =
         tmp_calls ts @ (if tmp_sock ts = None then [] else [SockEnd]) @ [ReadDir]"
    unfolding tmp_clear_calls k_def using keepAlive_then_end [of "now env" ts] by simp
  show "status (fst (tmp_handler req env ts)) = 500
     \<and> json_field ''success'' (fst (tmp_handler req env ts)) = Some (JBool False)
     \<and> tmp_sock (snd (tmp_handler req env ts)) = None
     \<and> \<not> tmp_isConnected (snd (tmp_handler req env ts))
     \<and> tmp_qrCode (snd (tmp_handler req env ts)) = None
     \<and> tmp_calls (snd (tmp_handler req env ts)) =
         tmp_calls ts @ (if tmp_sock ts = None then [] else [SockEnd]) @ [ReadDir]"
    unfolding h by (simp add: r c tmp_clear_memory json_field_def)
qed

text \<open>
  A linked /tmp session whose credential folder has gone missing.
\<close>

theorem C10_clear_not_atomic_witness:
  "snd (clear_auth_files (tmp_authFolder (idle_session\<lparr>tmp_authFolder := None\<rparr>))) \<noteq> None
   \<and> status (fst (tmp_handler (scenario_request ''POST'' ''/api/clear'')
                     (scenario_env 1000 (SetupOk fresh_socket))
                     (idle_session\<lparr>tmp_authFolder := None\<rparr>))) = 500
   \<and> tmp_sock (snd (tmp_handler (scenario_request ''POST'' ''/api/clear'')
                     (scenario_env 1000 (SetupOk fresh_socket))
                     (idle_session\<lparr>tmp_authFolder := None\<rparr>))) = None
   \<and> \<not> tmp_isConnected (snd (tmp_handler (scenario_request ''POST'' ''/api/clear'')
                     (scenario_env 1000 (SetupOk fresh_socket))
                     (idle_session\<lparr>tmp_authFolder := None\<rparr>)))
   \<and> tmp_calls (snd (tmp_handler (scenario_request ''POST'' ''/api/clear'')
                     (scenario_env 1000 (SetupOk fresh_socket))
                     (idle_session\<lparr>tmp_authFolder := None\<rparr>))) = [MakeSocket, SockEnd, ReadDir]"
proof -
  have a: "req_method (scenario_request ''POST'' ''/api/clear'') = ''POST''
      \<and> req_pathname (scenario_request ''POST'' ''/api/clear'') = ''/api/clear''"
    by (simp add: scenario_request_def)
  have b: "snd (clear_auth_files (tmp_authFolder (idle_session\<lparr>tmp_authFolder := None\<rparr>))) \<noteq> None"
    by (simp add: clear_auth_files_def)
  have x: "tmp_calls (idle_session\<lparr>tmp_authFolder := None\<rparr>) = [MakeSocket]"
    "tmp_sock (idle_session\<lparr>tmp_authFolder := None\<rparr>) \<noteq> None"
    by (simp_all add: idle_session_def)
  show ?thesis
    using a b x
      C10_clear_not_atomic [of "scenario_request ''POST'' ''/api/clear''"
        "idle_session\<lparr>tmp_authFolder := None\<rparr>" "scenario_env 1000 (SetupOk fresh_socket)"]
    by simp
qed

lemma keepAlive_idle:
  "tmp_sock s \<noteq> None \<Longrightarrow> tmp_isConnected s \<Longrightarrow> t - tmp_lastActivity s > CONNECTION_TIMEOUT \<Longrightarrow>
   keepAlive t s = torn_down s"
  by (simp add: keepAlive_def torn_down_def)

lemma keepAlive_torn_down: "keepAlive t (torn_down s) = torn_down s"
  by (simp add: keepAlive_def torn_down_def)

lemma tmp_handler_after_keepAlive:
  "req_method req \<noteq> ''OPTIONS'' \<Longrightarrow> keepAlive (now env) s = torn_down s \<Longrightarrow>
   tmp_handler req env s = tmp_handler req env (torn_down s)"
  by (simp add: tmp_handler_def keepAlive_torn_down)

lemma tmp_connect_torn_down:
  assumes "conn_setup env = SetupOk k" and "conn_events env = (t, open_update) # rest"
  shows "tmp_connect env (torn_down s) =
     (Response 200 (Json [(''success'', JBool True), (''connected'', JBool True)]),
      s\<lparr>tmp_sock := Some k, tmp_calls := tmp_calls s @ [SockEnd, MakeSocket],
         tmp_isConnected := True, tmp_qrCode := None, tmp_lastActivity := t\<rparr>)"
  using assms
  by (simp add: tmp_connect_def tmp_connectToWhatsApp_def torn_down_def tmp_on_update_def
        tmp_settles_def open_update_def truthy_def connect_result_fields_def)

lemma tmp_qr_torn_down:
  assumes "\<not> truthy (tmp_qrCode s)" and "conn_setup env = SetupOk k" and "conn_events env = []"
  shows "tmp_qr env (torn_down s) =
     (Response 503 (Json [(''success'', JBool False),
         (''message'', JStr ''QR code not available yet. Try /api/connect first'')]),
      s\<lparr>tmp_sock := Some k, tmp_calls := tmp_calls s @ [SockEnd, MakeSocket],
         tmp_isConnected := False\<rparr>)"
  using assms
  by (simp add: tmp_qr_def tmp_connectToWhatsApp_def torn_down_def)

lemma tmp_send_torn_down:
  assumes "truthy (req_phone req)" and "truthy (req_message req)"
  shows "tmp_send req env (torn_down s) =
     (Response 503 (Json [(''success'', JBool False),
         (''error'', JStr ''Bot not connected. Get QR code at /api/qr'')]), torn_down s)"
  using assms by (simp add: tmp_send_def torn_down_def)

text \<open>
  Claim C8, amended. In the /tmp service, a request other than \<^verbatim>\<open>OPTIONS\<close> that arrives while
  the session is connected and more than five minutes after the last activity ends the
  socket, nulls the handle and clears the connected flag before it is routed. It is then
  served without a session: a validated send is answered 503 and leaves the session torn
  down, while \<^verbatim>\<open>POST /api/connect\<close> and \<^verbatim>\<open>/api/qr\<close> call \<^verbatim>\<open>connectToWhatsApp\<close>, which makes a new
  socket (and on \<^verbatim>\<open>open\<close> the session is connected again). At five minutes exactly, or
  less, \<^verbatim>\<open>keepAlive\<close> changes nothing, and an \<^verbatim>\<open>OPTIONS\<close> request never reaches it.
\<close>

theorem C8_idle_policy:
  "(tmp_sock ts \<noteq> None \<and> tmp_isConnected ts \<and> now env - tmp_lastActivity ts > 5 * 60 * 1000
      \<and> req_method req \<noteq> ''OPTIONS'' \<longrightarrow>
      keepAlive (now env) ts = torn_down ts
      \<and> (req_method req = ''POST'' \<and> req_pathname req = ''/api/send''
           \<and> truthy (req_phone req) \<and> truthy (req_message req) \<longrightarrow>
          status (fst (tmp_handler req env ts)) = 503
          \<and> snd (tmp_handler req env ts) = torn_down ts)
      \<and> (req_method req = ''POST'' \<and> req_pathname req = ''/api/connect''
           \<and> conn_setup env = SetupOk k \<and> conn_events env = (t, open_update) # rest \<longrightarrow>
          status (fst (tmp_handler req env ts)) = 200
          \<and> json_field ''connected'' (fst (tmp_handler req env ts)) = Some (JBool True)
          \<and> snd (tmp_handler req env ts) =
              ts\<lparr>tmp_sock := Some k, tmp_calls := tmp_calls ts @ [SockEnd, MakeSocket],
                 tmp_isConnected := True, tmp_qrCode := None, tmp_lastActivity := t\<rparr>)
      \<and> (req_pathname req = ''/api/qr'' \<and> \<not> truthy (tmp_qrCode ts)
           \<and> conn_setup env = SetupOk k \<and> conn_events env = [] \<longrightarrow>
          snd (tmp_handler req env ts) =
              ts\<lparr>tmp_sock := Some k, tmp_calls := tmp_calls ts @ [SockEnd, MakeSocket],
                 tmp_isConnected := False\<rparr>))
   \<and> (now env - tmp_lastActivity ts \<le> 5 * 60 * 1000 \<longrightarrow> keepAlive (now env) ts = ts)
   \<and> (req_method req = ''OPTIONS'' \<longrightarrow> snd (tmp_handler req env ts) = ts)"
proof (intro conjI impI)
  assume "now env - tmp_lastActivity ts \<le> 5 * 60 * 1000"
  then show "keepAlive (now env) ts = ts"
    by (simp add: keepAlive_def CONNECTION_TIMEOUT_def)
next
  assume "req_method req = ''OPTIONS''"
  then show "snd (tmp_handler req env ts) = ts"
    by (simp add: tmp_handler_def)
next
  assume a: "tmp_sock ts \<noteq> None \<and> tmp_isConnected ts \<and> now env - tmp_lastActivity ts > 5 * 60 * 1000
      \<and> req_method req \<noteq> ''OPTIONS''"
  then show k: "keepAlive (now env) ts = torn_down ts"
    by (simp add: keepAlive_idle CONNECTION_TIMEOUT_def)
  from a have h: "tmp_handler req env ts = tmp_handler req env (torn_down ts)"
    by (simp add: tmp_handler_after_keepAlive k)
  {
    assume b: "req_method req = ''POST'' \<and> req_pathname req = ''/api/send''
           \<and> truthy (req_phone req) \<and> truthy (req_message req)"
    then have "tmp_handler req env (torn_down ts) = tmp_send req env (torn_down ts)"
      by (simp add: tmp_handler_def keepAlive_torn_down)
    with b show "status (fst (tmp_handler req env ts)) = 503"
      and "snd (tmp_handler req env ts) = torn_down ts"
      unfolding h by (simp_all add: tmp_send_torn_down)
  }
  {
    assume b: "req_method req = ''POST'' \<and> req_pathname req = ''/api/connect''
           \<and> conn_setup env = SetupOk k \<and> conn_events env = (t, open_update) # rest"
    then have "tmp_handler req env (torn_down ts) = tmp_connect env (torn_down ts)"
      by (simp add: tmp_handler_def keepAlive_torn_down)
    with b show "status (fst (tmp_handler req env ts)) = 200"
      and "json_field ''connected'' (fst (tmp_handler req env ts)) = Some (JBool True)"
      and "snd (tmp_handler req env ts) =
              ts\<lparr>tmp_sock := Some k, tmp_calls := tmp_calls ts @ [SockEnd, MakeSocket],
                 tmp_isConnected := True, tmp_qrCode := None, tmp_lastActivity := t\<rparr>"
      unfolding h by (simp_all add: tmp_connect_torn_down json_field_def)
  }
  {
    assume b: "req_pathname req = ''/api/qr'' \<and> \<not> truthy (tmp_qrCode ts)
           \<and> conn_setup env = SetupOk k \<and> conn_events env = []"
    with a have "tmp_handler req env (torn_down ts) = tmp_qr env (torn_down ts)"
      by (simp add: tmp_handler_def keepAlive_torn_down)
    with b show "snd (tmp_handler req env ts) =
              ts\<lparr>tmp_sock := Some k, tmp_calls := tmp_calls ts @ [SockEnd, MakeSocket],
                 tmp_isConnected := False\<rparr>"
      unfolding h by (simp add: tmp_qr_torn_down)
  }
qed


text \<open>
  The idle session, met by a send, a connect, a pairing-code request and a preflight.
\<close>

theorem C8_idle_policy_witness:
  "tmp_sock idle_session \<noteq> None \<and> tmp_isConnected idle_session
   \<and> now (scenario_env 300001 (SetupOk fresh_socket)) - tmp_lastActivity idle_session > 5 * 60 * 1000
   \<and> now (scenario_env 300000 (SetupOk fresh_socket)) - tmp_lastActivity idle_session \<le> 5 * 60 * 1000
   \<and> keepAlive 300001 idle_session = torn_down idle_session
   \<and> keepAlive 300000 idle_session = idle_session
   \<and> status (fst (tmp_handler (scenario_request ''POST'' ''/api/send'')
                     (scenario_env 300001 (SetupOk fresh_socket)) idle_session)) = 503
   \<and> status (fst (tmp_handler (scenario_request ''POST'' ''/api/connect'')
                     ((scenario_env 300001 (SetupOk fresh_socket))
                        \<lparr>conn_events := [(300500, open_update)]\<rparr>) idle_session)) = 200
   \<and> tmp_calls (snd (tmp_handler (scenario_request ''GET'' ''/api/qr'')
                     (scenario_env 300001 (SetupOk fresh_socket)) idle_session))
       = [MakeSocket, SockEnd, MakeSocket]
   \<and> snd (tmp_handler (scenario_request ''OPTIONS'' ''/api/send'')
                     (scenario_env 300001 (SetupOk fresh_socket)) idle_session) = idle_session"
proof -
  have a: "tmp_sock idle_session \<noteq> None" "tmp_isConnected idle_session"
    "tmp_lastActivity idle_session = 0" "tmp_calls idle_session = [MakeSocket]"
    "\<not> truthy (tmp_qrCode idle_session)"
    by (simp_all add: idle_session_def truthy_def)
  have r: "req_method (scenario_request m p) = m" "req_pathname (scenario_request m p) = p"
    "truthy (req_phone (scenario_request m p))" "truthy (req_message (scenario_request m p))"
    for m p
    by (simp_all add: scenario_request_def truthy_def)
  have e: "now (scenario_env t su) = t" "conn_setup (scenario_env t su) = su"
    "conn_events (scenario_env t su) = []" for t su
    by (simp_all add: scenario_env_def)
  show ?thesis
    using a
      C8_idle_policy [of idle_session "scenario_env 300001 (SetupOk fresh_socket)"
        "scenario_request ''POST'' ''/api/send''"]
      C8_idle_policy [of idle_session
        "(scenario_env 300001 (SetupOk fresh_socket))\<lparr>conn_events := [(300500, open_update)]\<rparr>"
        "scenario_request ''POST'' ''/api/connect''" fresh_socket 300500 "[]"]
      C8_idle_policy [of idle_session "scenario_env 300001 (SetupOk fresh_socket)"
        "scenario_request ''GET'' ''/api/qr''" fresh_socket]
      C8_idle_policy [of idle_session "scenario_env 300000 (SetupOk fresh_socket)"
        "scenario_request ''OPTIONS'' ''/api/send''"]
      C8_idle_policy [of idle_session "scenario_env 300001 (SetupOk fresh_socket)"
        "scenario_request ''OPTIONS'' ''/api/send''"]
    by (simp add: r e)
qed

text \<open>
  Two send requests in a row to the idle session: the first tears the session down and is
  answered 503, the second is answered 503 as well, and no socket is made.
\<close>

theorem C8_counterexample:
  "tmp_isConnected idle_session
   \<and> status (fst (tmp_handler (scenario_request ''POST'' ''/api/send'')
                     (scenario_env 300001 (SetupOk fresh_socket)) idle_session)) = 503
   \<and> status (fst (tmp_handler (scenario_request ''POST'' ''/api/send'')
                     (scenario_env 300002 (SetupOk fresh_socket))
                     (snd (tmp_handler (scenario_request ''POST'' ''/api/send'')
                            (scenario_env 300001 (SetupOk fresh_socket)) idle_session)))) = 503
   \<and> tmp_calls (snd (tmp_handler (scenario_request ''POST'' ''/api/send'')
                     (scenario_env 300002 (SetupOk fresh_socket))
                     (snd (tmp_handler (scenario_request ''POST'' ''/api/send'')
                            (scenario_env 300001 (SetupOk fresh_socket)) idle_session))))
       = [MakeSocket, SockEnd]"
proof -
  have k: "keepAlive 300001 idle_session = torn_down idle_session"
    by (simp add: keepAlive_def idle_session_def torn_down_def CONNECTION_TIMEOUT_def)
  have h: "tmp_handler (scenario_request ''POST'' ''/api/send'') (scenario_env t su) s =
      tmp_send (scenario_request ''POST'' ''/api/send'') (scenario_env t su) (keepAlive t s)" for t su s
    by (simp add: tmp_handler_def scenario_request_def scenario_env_def)
  have s: "tmp_send (scenario_request ''POST'' ''/api/send'') e (torn_down idle_session) =
      (Response 503 (Json [(''success'', JBool False),
         (''error'', JStr ''Bot not connected. Get QR code at /api/qr'')]), torn_down idle_session)" for e
    by (rule tmp_send_torn_down) (simp_all add: scenario_request_def truthy_def)
  have first: "tmp_handler (scenario_request ''POST'' ''/api/send'')
      (scenario_env 300001 (SetupOk fresh_socket)) idle_session =
      (Response 503 (Json [(''success'', JBool False),
         (''error'', JStr ''Bot not connected. Get QR code at /api/qr'')]), torn_down idle_session)"
    by (simp only: h k s)
  have second: "tmp_handler (scenario_request ''POST'' ''/api/send'')
      (scenario_env 300002 (SetupOk fresh_socket)) (torn_down idle_session) =
      (Response 503 (Json [(''success'', JBool False),
         (''error'', JStr ''Bot not connected. Get QR code at /api/qr'')]), torn_down idle_session)"
    by (simp only: h keepAlive_torn_down s)
  have c: "tmp_calls (torn_down idle_session) = [MakeSocket, SockEnd]"
    and i: "tmp_isConnected idle_session"
    by (simp_all add: idle_session_def torn_down_def)
  show ?thesis
    by (simp add: first second c i)
qed

lemma exp_logout_close:
  assumes "connection u = Some Close" and "statusCode u = Some loggedOut"
  shows "\<not> exp_isConnected (exp_on_update u s)"
    and "exp_currentQR (exp_on_update u s) = None"
    and "exp_timers (exp_on_update u s) = exp_timers s"
    and "exp_calls (exp_on_update u s) = exp_calls s @ [ReadDir]"
    and "exp_authFolder (exp_on_update u s) = fst (clear_auth_files (exp_authFolder s))"
  using assms by (simp_all add: exp_on_update_def Let_def)

lemma tmp_logout_close:
  assumes "connection u = Some Close" and "statusCode u = Some loggedOut"
  shows "\<not> tmp_isConnected (tmp_on_update t u s)"
    and "tmp_qrCode (tmp_on_update t u s) = None"
    and "tmp_calls (tmp_on_update t u s) = tmp_calls s @ [ReadDir]"
    and "tmp_authFolder (tmp_on_update t u s) = fst (clear_auth_files (tmp_authFolder s))"
  using assms by (simp_all add: tmp_on_update_def Let_def)

lemma mdb_logout_close:
  assumes "connection u = Some Close" and "statusCode u = Some loggedOut"
  shows "\<not> mdb_isConnected (mdb_on_update u s)"
    and "mdb_sock (mdb_on_update u s) = None"
    and "mdb_timers (mdb_on_update u s) = mdb_timers s"
    and "mdb_calls (mdb_on_update u s) = mdb_calls s"
    and "mdb_auth_state (mdb_on_update u s) = mdb_auth_state s"
  using assms by (simp_all add: mdb_on_update_def Let_def)

lemma tmp_connect_pairing:
  assumes "\<not> tmp_isConnected s" and "conn_setup env = SetupOk k"
    and "conn_events env = (t, pairing_update q) # rest" and "q \<noteq> []"
  shows "fst (tmp_connectToWhatsApp env s) = Inr (NeedsScan q)"
    and "tmp_qrCode (snd (tmp_connectToWhatsApp env s)) = Some q"
    and "tmp_calls (snd (tmp_connectToWhatsApp env s)) = tmp_calls s @ [MakeSocket]"
  using assms
  by (simp_all add: tmp_connectToWhatsApp_def tmp_on_update_def tmp_settles_def pairing_update_def
        truthy_def str_of_def)

lemma exp_connect_pairing:
  assumes "q \<noteq> []"
  shows "exp_calls (exp_on_update (pairing_update q) (exp_connectToWhatsApp (SetupOk k) s))
           = exp_calls s @ [MakeSocket]"
    and "exp_currentQR (exp_on_update (pairing_update q) (exp_connectToWhatsApp (SetupOk k) s)) = Some q"
  using assms
  by (simp_all add: exp_connectToWhatsApp_def exp_on_update_def pairing_update_def truthy_def Let_def)

lemma mdb_connect_pairing:
  assumes "\<not> mdb_isConnected s" and "q \<noteq> []"
  shows "fst (initWhatsApp us (SetupOk k) s) = None"
    and "mdb_calls (mdb_on_update (pairing_update q) (snd (initWhatsApp us (SetupOk k) s)))
           = mdb_calls s @ [MakeSocket]"
    and "mdb_qrCodeData (mdb_on_update (pairing_update q) (snd (initWhatsApp us (SetupOk k) s)))
           = Some (DataURL q)"
  using assms
  by (simp_all add: initWhatsApp_def mdb_on_update_calls mdb_on_updates_calls Let_def)
     (simp add: mdb_on_update_def pairing_update_def truthy_def str_of_def)

text \<open>
  Claim C2, amended. When a connection closes with reason logged-out, no service
  schedules a reconnect and each clears its connected flag. The Express and the /tmp
  service discard the pairing code and make one pass over the credential folder, which
  empties it when it can be listed and every entry is a regular file (an error in the
  pass is swallowed and leaves the entries not yet deleted). The Mongo service nulls its
  handle and issues no delete: the collection is as it was. In each service the next call
  of \<^verbatim>\<open>connectToWhatsApp\<close> or \<^verbatim>\<open>initWhatsApp\<close> makes a new socket (in the Mongo service whatever
  updates arrive while it awaits), and a pairing code that this socket reports is stored
  as the new pairing artifact.
\<close>

theorem C2_logout_close:
  "connection u = Some Close \<and> statusCode u = Some loggedOut \<longrightarrow>
     (\<not> exp_isConnected (exp_on_update u es)
      \<and> exp_currentQR (exp_on_update u es) = None
      \<and> exp_timers (exp_on_update u es) = exp_timers es
      \<and> exp_calls (exp_on_update u es) = exp_calls es @ [ReadDir]
      \<and> exp_authFolder (exp_on_update u es) = fst (clear_auth_files (exp_authFolder es))
      \<and> (exp_authFolder es = Some d \<and> regular_files d \<longrightarrow>
           exp_authFolder (exp_on_update u es) = Some [])
      \<and> (q \<noteq> [] \<longrightarrow>
           exp_calls (exp_on_update (pairing_update q)
                        (exp_connectToWhatsApp (SetupOk k) (exp_on_update u es)))
             = exp_calls es @ [ReadDir, MakeSocket]
           \<and> exp_currentQR (exp_on_update (pairing_update q)
                        (exp_connectToWhatsApp (SetupOk k) (exp_on_update u es))) = Some q))
   \<and> (\<not> tmp_isConnected (tmp_on_update t u ts)
      \<and> tmp_qrCode (tmp_on_update t u ts) = None
      \<and> tmp_calls (tmp_on_update t u ts) = tmp_calls ts @ [ReadDir]
      \<and> tmp_authFolder (tmp_on_update t u ts) = fst (clear_auth_files (tmp_authFolder ts))
      \<and> (tmp_authFolder ts = Some d \<and> regular_files d \<longrightarrow>
           tmp_authFolder (tmp_on_update t u ts) = Some [])
      \<and> (q \<noteq> [] \<and> conn_setup env = SetupOk k \<and> conn_events env = (t', pairing_update q) # rest \<longrightarrow>
           fst (tmp_connectToWhatsApp env (tmp_on_update t u ts)) = Inr (NeedsScan q)
           \<and> tmp_qrCode (snd (tmp_connectToWhatsApp env (tmp_on_update t u ts))) = Some q
           \<and> tmp_calls (snd (tmp_connectToWhatsApp env (tmp_on_update t u ts)))
               = tmp_calls ts @ [ReadDir, MakeSocket]))
   \<and> (\<not> mdb_isConnected (mdb_on_update u ms)
      \<and> mdb_sock (mdb_on_update u ms) = None
      \<and> mdb_timers (mdb_on_update u ms) = mdb_timers ms
      \<and> mdb_calls (mdb_on_update u ms) = mdb_calls ms
      \<and> mdb_auth_state (mdb_on_update u ms) = mdb_auth_state ms
      \<and> (q \<noteq> [] \<longrightarrow>
           fst (initWhatsApp us (SetupOk k) (mdb_on_update u ms)) = None
           \<and> mdb_calls (mdb_on_update (pairing_update q)
                          (snd (initWhatsApp us (SetupOk k) (mdb_on_update u ms))))
               = mdb_calls ms @ [MakeSocket]
           \<and> mdb_qrCodeData (mdb_on_update (pairing_update q)
                          (snd (initWhatsApp us (SetupOk k) (mdb_on_update u ms))))
               = Some (DataURL q)))"
  (is "?H \<longrightarrow> ?E \<and> ?T \<and> ?M")
proof (intro impI)
  assume a: ?H
  then have c: "connection u = Some Close" and l: "statusCode u = Some loggedOut" by simp_all
  note e = exp_logout_close [OF c l, of es]
  note t = tmp_logout_close [OF c l, of t ts]
  note m = mdb_logout_close [OF c l, of ms]
  have ex: ?E
    using e by (simp add: clear_auth_files_regular exp_connect_pairing)
  have tm: ?T
    using t by (simp add: clear_auth_files_regular tmp_connect_pairing)
  have md: ?M
    using m by (simp add: mdb_connect_pairing)
  show "?E \<and> ?T \<and> ?M"
    by (rule conjI [OF ex conjI [OF tm md]])
qed

text \<open>
  A logout reaches a linked Express server, a linked /tmp session and a linked Mongo function.
\<close>

theorem C2_logout_close_witness:
  "connection logout_close = Some Close \<and> statusCode logout_close = Some loggedOut
   \<and> exp_authFolder linked_server = Some [(''creds.json'', RegularFile)]
   \<and> regular_files [(''creds.json'', RegularFile)]
   \<and> exp_authFolder (exp_on_update logout_close linked_server) = Some []
   \<and> exp_timers (exp_on_update logout_close linked_server) = []
   \<and> tmp_authFolder (tmp_on_update 5 logout_close idle_session) = Some []
   \<and> tmp_qrCode (snd (tmp_connectToWhatsApp
         ((scenario_env 9 (SetupOk fresh_socket))\<lparr>conn_events := [(10, pairing_update ''2@abc'')]\<rparr>)
         (tmp_on_update 5 logout_close idle_session))) = Some ''2@abc''
   \<and> mdb_sock (mdb_on_update logout_close linked_function) = None
   \<and> mdb_timers (mdb_on_update logout_close linked_function) = []"
proof -
  have h: "connection logout_close = Some Close \<and> statusCode logout_close = Some loggedOut"
    by (simp add: logout_close_def)
  have f: "exp_authFolder linked_server = Some [(''creds.json'', RegularFile)]"
    "tmp_authFolder idle_session = Some [(''creds.json'', RegularFile)]"
    "regular_files [(''creds.json'', RegularFile)]"
    "exp_timers linked_server = []" "mdb_timers linked_function = []"
    by (simp_all add: linked_server_def idle_session_def regular_files_def linked_function_def)
  have v: "conn_setup ((scenario_env 9 (SetupOk fresh_socket))
                \<lparr>conn_events := [(10, pairing_update ''2@abc'')]\<rparr>) = SetupOk fresh_socket"
    "conn_events ((scenario_env 9 (SetupOk fresh_socket))
                \<lparr>conn_events := [(10, pairing_update ''2@abc'')]\<rparr>) = (10, pairing_update ''2@abc'') # []"
    by (simp_all add: scenario_env_def)
  show ?thesis
    using h f v
      C2_logout_close [of logout_close linked_server "[(''creds.json'', RegularFile)]" "''2@abc''"
        fresh_socket 5 idle_session
        "(scenario_env 9 (SetupOk fresh_socket))\<lparr>conn_events := [(10, pairing_update ''2@abc'')]\<rparr>"
        10 "[]" linked_function "[]"]
    by (simp add: clear_auth_files_def)
qed

text \<open>
  The Mongo function holds a credential record, is logged out, and still holds the record.
\<close>

theorem C2_counterexample:
  "connection logout_close = Some Close \<and> statusCode logout_close = Some loggedOut
   \<and> readData ''creds'' (mdb_auth_state linked_function) = Some ''noiseKey''
   \<and> readData ''creds'' (mdb_auth_state (mdb_on_update logout_close linked_function))
       = Some ''noiseKey''
   \<and> mdb_auth_state (mdb_on_update logout_close linked_function) \<noteq> []"
  by (simp add: logout_close_def linked_function_def mdb_on_update_def readData_def truthy_def)

lemma exp_close_at_max:
  assumes "connection u = Some Close" and "statusCode u \<noteq> Some loggedOut" and "\<not> truthy (qr u)"
    and "MAX_RETRY_ATTEMPTS \<le> exp_connectionAttempts s"
  shows "exp_connectionAttempts (exp_on_update u s) = 0"
    and "exp_calls (exp_on_update u s) = exp_calls s @ [ReadDir]"
    and "exp_authFolder (exp_on_update u s) = fst (clear_auth_files (exp_authFolder s))"
    and "exp_timers (exp_on_update u s) =
           exp_timers s @ (if snd (clear_auth_files (exp_authFolder s)) = None then [5000] else [])"
    and "\<not> exp_isConnected (exp_on_update u s)"
  using assms
  by (cases "clear_auth_files (exp_authFolder s)"; cases "snd (clear_auth_files (exp_authFolder s))";
      simp add: exp_on_update_def Let_def)+

lemma exp_close_below_max:
  assumes "connection u = Some Close" and "statusCode u \<noteq> Some loggedOut" and "\<not> truthy (qr u)"
    and "exp_connectionAttempts s < MAX_RETRY_ATTEMPTS"
  shows "exp_connectionAttempts (exp_on_update u s) = exp_connectionAttempts s"
    and "exp_calls (exp_on_update u s) = exp_calls s"
    and "exp_authFolder (exp_on_update u s) = exp_authFolder s"
    and "exp_timers (exp_on_update u s) =
           exp_timers s @ [min (5000 * exp_connectionAttempts s) 15000]"
    and "\<not> exp_isConnected (exp_on_update u s)"
  using assms by (simp_all add: exp_on_update_def Let_def)

lemma exp_timer_reconnect:
  assumes "exp_timers s = [dl]"
  shows "exp_connectionAttempts (exp_timer_fires 0 (SetupOk k) s) = exp_connectionAttempts s + 1"
    and "exp_calls (exp_timer_fires 0 (SetupOk k) s) = exp_calls s @ [MakeSocket]"
    and "exp_authFolder (exp_timer_fires 0 (SetupOk k) s) = exp_authFolder s"
    and "exp_timers (exp_timer_fires 0 (SetupOk k) s) = []"
  using assms by (simp_all add: exp_timer_fires_def exp_connectToWhatsApp_def Let_def)

lemma exp_run_append: "exp_run (xs @ ys) s = exp_run ys (exp_run xs s)"
  by (simp add: exp_run_def)

lemma failed_attempt_run:
  "exp_run (failed_attempt k code) s =
     exp_on_update \<lparr>connection = Some Close, statusCode = code, qr = None\<rparr>
       (exp_timer_fires 0 (SetupOk k) s)"
  by (simp add: exp_run_def failed_attempt_def)

lemma wipe_passes_append: "wipe_passes (xs @ ys) = wipe_passes xs + wipe_passes ys"
  by (simp add: wipe_passes_def)

lemma failed_attempt_below:
  assumes "code \<noteq> Some loggedOut" and "exp_timers s = [dl]"
    and "exp_connectionAttempts s + 1 < MAX_RETRY_ATTEMPTS"
  shows "exp_connectionAttempts (exp_run (failed_attempt k code) s) = exp_connectionAttempts s + 1"
    and "wipe_passes (exp_calls (exp_run (failed_attempt k code) s)) = wipe_passes (exp_calls s)"
    and "exp_authFolder (exp_run (failed_attempt k code) s) = exp_authFolder s"
    and "\<exists>dl'. exp_timers (exp_run (failed_attempt k code) s) = [dl']"
proof -
  let ?u = "\<lparr>connection = Some Close, statusCode = code, qr = None\<rparr>"
  let ?s = "exp_timer_fires 0 (SetupOk k) s"
  note t = exp_timer_reconnect [OF assms(2), of k]
  have u: "connection ?u = Some Close" "statusCode ?u \<noteq> Some loggedOut" "\<not> truthy (qr ?u)"
    using assms(1) by (simp_all add: truthy_def)
  have b: "exp_connectionAttempts ?s < MAX_RETRY_ATTEMPTS"
    using assms(3) by (simp add: t)
  note c = exp_close_below_max [OF u b]
  show "exp_connectionAttempts (exp_run (failed_attempt k code) s) = exp_connectionAttempts s + 1"
    by (simp only: failed_attempt_run c t)
  show "wipe_passes (exp_calls (exp_run (failed_attempt k code) s)) = wipe_passes (exp_calls s)"
    by (simp only: failed_attempt_run c t) (simp add: wipe_passes_def)
  show "exp_authFolder (exp_run (failed_attempt k code) s) = exp_authFolder s"
    by (simp only: failed_attempt_run c t)
  show "\<exists>dl'. exp_timers (exp_run (failed_attempt k code) s) = [dl']"
    by (simp only: failed_attempt_run c t) simp
qed

lemma failed_attempt_at_max:
  assumes "code \<noteq> Some loggedOut" and "exp_timers s = [dl]"
    and "MAX_RETRY_ATTEMPTS \<le> exp_connectionAttempts s + 1"
    and "exp_authFolder s = Some d" and "regular_files d"
  shows "exp_connectionAttempts (exp_run (failed_attempt k code) s) = 0"
    and "wipe_passes (exp_calls (exp_run (failed_attempt k code) s)) = wipe_passes (exp_calls s) + 1"
    and "exp_authFolder (exp_run (failed_attempt k code) s) = Some []"
    and "exp_timers (exp_run (failed_attempt k code) s) = [5000]"
proof -
  let ?u = "\<lparr>connection = Some Close, statusCode = code, qr = None\<rparr>"
  let ?s = "exp_timer_fires 0 (SetupOk k) s"
  note t = exp_timer_reconnect [OF assms(2), of k]
  have u: "connection ?u = Some Close" "statusCode ?u \<noteq> Some loggedOut" "\<not> truthy (qr ?u)"
    using assms(1) by (simp_all add: truthy_def)
  have b: "MAX_RETRY_ATTEMPTS \<le> exp_connectionAttempts ?s"
    using assms(3) by (simp add: t)
  note c = exp_close_at_max [OF u b]
  have f: "clear_auth_files (exp_authFolder ?s) = (Some [], None)"
    by (simp add: t assms(4) clear_auth_files_regular [OF assms(5)])
  note c = c [unfolded f fst_conv snd_conv]
  show "exp_connectionAttempts (exp_run (failed_attempt k code) s) = 0"
    by (simp only: failed_attempt_run c)
  show "wipe_passes (exp_calls (exp_run (failed_attempt k code) s)) = wipe_passes (exp_calls s) + 1"
    by (simp only: failed_attempt_run c t) (simp add: wipe_passes_def)
  show "exp_authFolder (exp_run (failed_attempt k code) s) = Some []"
    by (simp only: failed_attempt_run c f fst_conv)
  show "exp_timers (exp_run (failed_attempt k code) s) = [5000]"
    by (simp only: failed_attempt_run c f t snd_conv) simp
qed

lemma three_failed_attempts:
  assumes "code \<noteq> Some loggedOut" and "exp_timers s = [dl]" and "exp_connectionAttempts s = 0"
    and "exp_authFolder s = Some d" and "regular_files d"
  shows "exp_connectionAttempts (exp_run (concat (replicate 3 (failed_attempt k code))) s) = 0"
    and "wipe_passes (exp_calls (exp_run (concat (replicate 3 (failed_attempt k code))) s))
           = wipe_passes (exp_calls s) + 1"
    and "exp_authFolder (exp_run (concat (replicate 3 (failed_attempt k code))) s) = Some []"
    and "exp_timers (exp_run (concat (replicate 3 (failed_attempt k code))) s) = [5000]"
proof -
  let ?f = "failed_attempt k code"
  let ?s1 = "exp_run ?f s"
  let ?s2 = "exp_run ?f ?s1"
  have r: "exp_run (concat (replicate 3 ?f)) s = exp_run ?f ?s2"
    by (simp add: numeral_3_eq_3 exp_run_append)
  have m: "MAX_RETRY_ATTEMPTS = 3" by (simp add: MAX_RETRY_ATTEMPTS_def)
  have b1: "exp_connectionAttempts s + 1 < MAX_RETRY_ATTEMPTS"
    by (simp add: assms(3) m)
  note s1 = failed_attempt_below [OF assms(1) assms(2) b1, of k]
  from s1(4) obtain d1 where t1: "exp_timers ?s1 = [d1]" ..
  have b2: "exp_connectionAttempts ?s1 + 1 < MAX_RETRY_ATTEMPTS"
    by (simp add: s1(1) assms(3) m)
  note s2 = failed_attempt_below [OF assms(1) t1 b2, of k]
  from s2(4) obtain d2 where t2: "exp_timers ?s2 = [d2]" ..
  have b3: "MAX_RETRY_ATTEMPTS \<le> exp_connectionAttempts ?s2 + 1"
    by (simp add: s2(1) s1(1) assms(3) m)
  have f2: "exp_authFolder ?s2 = Some d"
    by (simp add: s2(3) s1(3) assms(4))
  note s3 = failed_attempt_at_max [OF assms(1) t2 b3 f2 assms(5), of k]
  show "exp_connectionAttempts (exp_run (concat (replicate 3 ?f)) s) = 0"
    by (simp only: r s3)
  show "wipe_passes (exp_calls (exp_run (concat (replicate 3 ?f)) s)) = wipe_passes (exp_calls s) + 1"
    by (simp only: r s3 s2 s1)
  show "exp_authFolder (exp_run (concat (replicate 3 ?f)) s) = Some []"
    by (simp only: r s3)
  show "exp_timers (exp_run (concat (replicate 3 ?f)) s) = [5000]"
    by (simp only: r s3)
qed

lemma regular_files_empty: "regular_files []"
  by (simp add: regular_files_def)

lemma wipe_recurs:
  assumes "code \<noteq> Some loggedOut" and "exp_timers s = [dl]" and "exp_connectionAttempts s = 0"
    and "exp_authFolder s = Some d" and "regular_files d"
  shows "wipe_passes (exp_calls (exp_run (concat (replicate n (concat (replicate 3 (failed_attempt k code))))) s))
           = wipe_passes (exp_calls s) + n
         \<and> exp_connectionAttempts (exp_run (concat (replicate n (concat (replicate 3 (failed_attempt k code))))) s) = 0
         \<and> (\<exists>dl' d'. exp_timers (exp_run (concat (replicate n (concat (replicate 3 (failed_attempt k code))))) s) = [dl']
              \<and> exp_authFolder (exp_run (concat (replicate n (concat (replicate 3 (failed_attempt k code))))) s) = Some d'
              \<and> regular_files d')"
  using assms
proof (induction n arbitrary: s dl d)
  case 0
  then show ?case by (simp add: exp_run_def)
next
  case (Suc n)
  let ?c = "concat (replicate 3 (failed_attempt k code))"
  let ?s1 = "exp_run ?c s"
  note c = three_failed_attempts [OF Suc.prems, of k]
  have r: "exp_run (concat (replicate (Suc n) ?c)) s = exp_run (concat (replicate n ?c)) ?s1"
    by (simp add: exp_run_append)
  from Suc.IH [OF Suc.prems(1) c(4) c(1) c(3) regular_files_empty]
  show ?case
    unfolding r by (simp add: c(2))
qed


text \<open>
  Claim C3, amended. In the Express service, a non-logout close handled while the retry
  counter is at the maximum resets the counter to zero and makes exactly one pass over
  the credential folder; when the pass completes, exactly one reconnect is scheduled, five
  seconds later, and when listing or unlinking throws, none is. The handler itself makes
  no socket. The step is not one-off: the counter restarts at zero, so that in a run of
  reconnects that each end in a non-logout close every third one wipes again, \<open>n\<close> passes
  after \<open>3 * n\<close> failed attempts.
\<close>

theorem C3_retry_exhausted:
  "(connection u = Some Close \<and> statusCode u \<noteq> Some loggedOut \<and> \<not> truthy (qr u)
      \<and> MAX_RETRY_ATTEMPTS \<le> exp_connectionAttempts es \<longrightarrow>
      exp_connectionAttempts (exp_on_update u es) = 0
      \<and> exp_calls (exp_on_update u es) = exp_calls es @ [ReadDir]
      \<and> exp_authFolder (exp_on_update u es) = fst (clear_auth_files (exp_authFolder es))
      \<and> exp_timers (exp_on_update u es) =
          exp_timers es @ (if snd (clear_auth_files (exp_authFolder es)) = None then [5000] else [])
      \<and> (exp_authFolder es = Some d \<and> regular_files d \<longrightarrow>
           exp_authFolder (exp_on_update u es) = Some []
           \<and> exp_timers (exp_on_update u es) = exp_timers es @ [5000]))
   \<and> (code \<noteq> Some loggedOut \<and> exp_timers es' = [dl] \<and> exp_connectionAttempts es' = 0
        \<and> exp_authFolder es' = Some d' \<and> regular_files d' \<longrightarrow>
      wipe_passes (exp_calls
         (exp_run (concat (replicate n (concat (replicate 3 (failed_attempt k code))))) es'))
        = wipe_passes (exp_calls es') + n)"
  (is "(?H1 \<longrightarrow> ?A) \<and> (?H2 \<longrightarrow> ?B)")
proof (rule conjI; rule impI)
  assume h: ?H1
  then have u: "connection u = Some Close" "statusCode u \<noteq> Some loggedOut" "\<not> truthy (qr u)"
    "MAX_RETRY_ATTEMPTS \<le> exp_connectionAttempts es"
    by simp_all
  note c = exp_close_at_max [OF u]
  show ?A
    using c by (simp add: clear_auth_files_regular)
next
  assume h: ?H2
  then have a: "code \<noteq> Some loggedOut" "exp_timers es' = [dl]" "exp_connectionAttempts es' = 0"
    "exp_authFolder es' = Some d'" "regular_files d'"
    by simp_all
  from wipe_recurs [OF a, of n k] show ?B by (rule conjunct1)
qed



text \<open>
  A server whose counter stands at three meets a timeout close; a server that has just
  lost its connection goes through six failed reconnects.
\<close>

theorem C3_retry_exhausted_witness:
  "connection timeout_close = Some Close \<and> statusCode timeout_close \<noteq> Some loggedOut
   \<and> \<not> truthy (qr timeout_close)
   \<and> MAX_RETRY_ATTEMPTS \<le> exp_connectionAttempts (linked_server\<lparr>exp_connectionAttempts := 3\<rparr>)
   \<and> exp_authFolder (exp_on_update timeout_close (linked_server\<lparr>exp_connectionAttempts := 3\<rparr>))
       = Some []
   \<and> exp_timers (exp_on_update timeout_close (linked_server\<lparr>exp_connectionAttempts := 3\<rparr>))
       = [5000]
   \<and> exp_calls (exp_on_update timeout_close (linked_server\<lparr>exp_connectionAttempts := 3\<rparr>))
       = [MakeSocket, ReadDir]
   \<and> exp_timers (exp_on_update timeout_close linked_server) = [0]
   \<and> exp_connectionAttempts (exp_on_update timeout_close linked_server) = 0
   \<and> wipe_passes (exp_calls
        (exp_run (concat (replicate 2 (concat (replicate 3 (failed_attempt fresh_socket (Some 408))))))
           (exp_on_update timeout_close linked_server))) = 2"
proof -
  have u: "connection timeout_close = Some Close" "statusCode timeout_close \<noteq> Some loggedOut"
    "\<not> truthy (qr timeout_close)" "Some 408 \<noteq> Some loggedOut"
    by (simp_all add: timeout_close_def loggedOut_def truthy_def)
  have s: "exp_connectionAttempts (linked_server\<lparr>exp_connectionAttempts := 3\<rparr>) = 3"
    "MAX_RETRY_ATTEMPTS = 3"
    "exp_authFolder (linked_server\<lparr>exp_connectionAttempts := 3\<rparr>) = Some [(''creds.json'', RegularFile)]"
    "exp_timers (linked_server\<lparr>exp_connectionAttempts := 3\<rparr>) = []"
    "exp_calls (linked_server\<lparr>exp_connectionAttempts := 3\<rparr>) = [MakeSocket]"
    "regular_files [(''creds.json'', RegularFile)]"
    by (simp_all add: linked_server_def MAX_RETRY_ATTEMPTS_def regular_files_def)
  have b: "exp_connectionAttempts linked_server < MAX_RETRY_ATTEMPTS"
    by (simp add: linked_server_def MAX_RETRY_ATTEMPTS_def)
  note c = exp_close_below_max [OF u(1) u(2) u(3) b]
  have t: "exp_timers (exp_on_update timeout_close linked_server) = [0]"
    "exp_connectionAttempts (exp_on_update timeout_close linked_server) = 0"
    "exp_authFolder (exp_on_update timeout_close linked_server) = Some [(''creds.json'', RegularFile)]"
    "wipe_passes (exp_calls (exp_on_update timeout_close linked_server)) = 0"
    by (simp_all add: c) (simp_all add: linked_server_def wipe_passes_def)
  show ?thesis
    using u s t
      C3_retry_exhausted [of timeout_close "linked_server\<lparr>exp_connectionAttempts := 3\<rparr>"
        "[(''creds.json'', RegularFile)]" "Some 408" "exp_on_update timeout_close linked_server" 0
        "[(''creds.json'', RegularFile)]" 2 fresh_socket]
    by (simp add: clear_auth_files_def)
qed



text \<open>
  A server starts and every connection it makes times out: after six closes the folder
  has been wiped twice and a further reconnect is pending. With a directory among the
  credential files, the third close wipes, throws, and leaves no reconnect pending.
\<close>

theorem C3_counterexample:
  "wipe_passes (exp_calls
      (exp_run (ServerStart (SetupOk fresh_socket) # ConnectionUpdate timeout_close
                # concat (replicate 5 (failed_attempt fresh_socket (Some 408))))
         (exp_initial [(''creds.json'', RegularFile)]))) = 2
   \<and> exp_timers
      (exp_run (ServerStart (SetupOk fresh_socket) # ConnectionUpdate timeout_close
                # concat (replicate 5 (failed_attempt fresh_socket (Some 408))))
         (exp_initial [(''creds.json'', RegularFile)])) = [5000]
   \<and> exp_timers
      (exp_run (ServerStart (SetupOk fresh_socket) # ConnectionUpdate timeout_close
                # concat (replicate 2 (failed_attempt fresh_socket (Some 408))))
         (exp_initial [(''creds.json'', RegularFile), (''keys'', Directory)])) = []"
proof -
  have r5: "replicate 5 x = [x, x, x, x, x]" and r2: "replicate 2 x = [x, x]" for x :: "exp_event list"
    by (simp_all add: numeral_eq_Suc)
  have c: "Some 408 \<noteq> Some loggedOut" "statusCode timeout_close = Some 408"
    "connection timeout_close = Some Close" "\<not> truthy (qr timeout_close)"
    by (simp_all add: loggedOut_def timeout_close_def truthy_def)
  have st: "exp_on_update timeout_close (exp_connectToWhatsApp (SetupOk fresh_socket) (exp_initial d)) =
     \<lparr>exp_sock = Some fresh_socket, exp_qrGenerated = False, exp_isConnected = False,
      exp_currentQR = None, exp_connectionAttempts = 1, exp_authFolder = Some d,
      exp_timers = [5000], exp_calls = [MakeSocket]\<rparr>" for d
    by (simp add: exp_on_update_def exp_connectToWhatsApp_def exp_initial_def c
          MAX_RETRY_ATTEMPTS_def loggedOut_def Let_def)
  have fa: "exp_run (failed_attempt fresh_socket (Some 408))
     \<lparr>exp_sock = k, exp_qrGenerated = False, exp_isConnected = False,
      exp_currentQR = None, exp_connectionAttempts = a, exp_authFolder = Some d,
      exp_timers = [dl], exp_calls = cs\<rparr> =
     (if a + 1 < 3
      then \<lparr>exp_sock = Some fresh_socket, exp_qrGenerated = False, exp_isConnected = False,
            exp_currentQR = None, exp_connectionAttempts = a + 1, exp_authFolder = Some d,
            exp_timers = [min (5000 * (a + 1)) 15000], exp_calls = cs @ [MakeSocket]\<rparr>
      else \<lparr>exp_sock = Some fresh_socket, exp_qrGenerated = False, exp_isConnected = False,
            exp_currentQR = None, exp_connectionAttempts = 0,
            exp_authFolder = fst (clear_auth_files (Some d)),
            exp_timers = (if snd (clear_auth_files (Some d)) = None then [5000] else []),
            exp_calls = cs @ [MakeSocket, ReadDir]\<rparr>)" for k a d dl cs
    by (cases "clear_auth_files (Some d)"; cases "snd (clear_auth_files (Some d))")
       (simp_all add: failed_attempt_run exp_timer_fires_def exp_connectToWhatsApp_def
          exp_on_update_def truthy_def loggedOut_def MAX_RETRY_ATTEMPTS_def Let_def)
  have w1: "clear_auth_files (Some [(''creds.json'', RegularFile)]) = (Some [], None)"
    and w0: "clear_auth_files (Some []) = (Some [], None)"
    and w2: "clear_auth_files (Some [(''creds.json'', RegularFile), (''keys'', Directory)])
               = (Some [(''keys'', Directory)], Some ''EISDIR'')"
    by (simp_all add: clear_auth_files_def)
  have e: "exp_run (ServerStart su # ConnectionUpdate u # evs) s =
             exp_run evs (exp_on_update u (exp_connectToWhatsApp su s))" for su u evs s
    by (simp add: exp_run_def)
  show ?thesis
    unfolding e st r5 r2
    by (simp add: exp_run_append fa w1 w0 w2 wipe_passes_def)
qed

end
